theory Spec2Isabelle
  imports Complex_Main
begin

section \<open>Tensors, errors and the library operations the classifier calls\<close>

text \<open>
  The classifier of \<^verbatim>\<open>LSTSAUG/ClassifierModelFCN.py\<close> is a PyTorch module. Tensor values
  are modelled by nested lists of reals (the reals idealise the floats: rounding, overflow
  and infinities are not modelled). A Python exception is a value of type \<open>error\<close>, and a
  function that can raise returns \<open>error + 'a\<close> with \<open>Inl\<close> for the exception.
\<close>

datatype error = ZeroDivisionError | ValueError | RuntimeError | IndexError

type_synonym tensor2 = "real list list"
type_synonym tensor3 = "real list list list"

text \<open>\<^verbatim>\<open>X.unsqueeze(1)\<close>: a batch of shape (b, L) becomes a batch of shape (b, 1, L).\<close>

definition unsqueeze1 :: "tensor2 \<Rightarrow> tensor3" where
  "unsqueeze1 X = map (\<lambda>row. [row]) X"

text \<open>
  Modelled from the spec: \<^verbatim>\<open>utils.to_default_device\<close> is imported by the source and is
  not part of it. Spec section 6: "given a tensor, returns an equivalent tensor resident on
  the active compute device". The value of the tensor is what the model keeps.
\<close>

definition to_default_device :: "'a \<Rightarrow> 'a" where
  "to_default_device t = t"

text \<open>
  \<^verbatim>\<open>loss.item()\<close> is a Python float. The only place where the source can produce a
  not-a-number without any rounding being involved is the mean over a tensor with no
  element; that value is kept apart from the finite ones.
\<close>

datatype loss_value = Finite real | NaN

fun loss_add :: "loss_value \<Rightarrow> loss_value \<Rightarrow> loss_value" where
  "loss_add (Finite a) (Finite b) = Finite (a + b)"
| "loss_add _ _ = NaN"

text \<open>\<^verbatim>\<open>train_loss / total\<close>: Python raises on a zero divisor, whatever the dividend.\<close>

fun loss_div :: "loss_value \<Rightarrow> nat \<Rightarrow> error + loss_value" where
  "loss_div v 0 = Inl ZeroDivisionError"
| "loss_div (Finite a) n = Inr (Finite (a / real n))"
| "loss_div NaN n = Inr NaN"

subsection \<open>\<^verbatim>\<open>nn.BCEWithLogitsLoss()\<close> with its default reduction, the mean\<close>

definition sigmoid :: "real \<Rightarrow> real" where
  "sigmoid x = 1 / (1 + exp (- x))"

definition bce_with_logits :: "real \<Rightarrow> real \<Rightarrow> real" where
  "bce_with_logits x y = - (y * ln (sigmoid x) + (1 - y) * ln (1 - sigmoid x))"

text \<open>
  \<^verbatim>\<open>self.criterion = nn.BCEWithLogitsLoss()\<close>: the target must have the size of the input
  (a \<^verbatim>\<open>ValueError\<close> otherwise), the loss is taken element by element and the default
  reduction averages it over all elements of the batch, classes included.
\<close>

definition criterion :: "tensor2 \<Rightarrow> tensor2 \<Rightarrow> error + loss_value" where
  "criterion input target =
     (if map length input \<noteq> map length target then Inl ValueError
      else (let ls = concat (map2 (map2 bce_with_logits) input target)
            in if ls = [] then Inr NaN
               else Inr (Finite (sum_list ls / real (length ls)))))"

subsection \<open>\<^verbatim>\<open>torch.argmax(t, dim=1)\<close>, the comparison of index tensors and their sum\<close>

text \<open>
  The index of the first maximal value of a row; a row without entries has none, and
  \<^verbatim>\<open>torch.argmax\<close> raises an \<^verbatim>\<open>IndexError\<close> for it.
\<close>

fun argmax_from :: "real list \<Rightarrow> nat \<Rightarrow> nat \<Rightarrow> real \<Rightarrow> nat" where
  "argmax_from [] i bi bv = bi"
| "argmax_from (v # vs) i bi bv =
     (if v > bv then argmax_from vs (Suc i) i v else argmax_from vs (Suc i) bi bv)"

definition argmax :: "real list \<Rightarrow> error + nat" where
  "argmax row = (case row of [] \<Rightarrow> Inl IndexError | v # vs \<Rightarrow> Inr (argmax_from vs 1 0 v))"

fun argmax_dim1 :: "tensor2 \<Rightarrow> error + nat list" where
  "argmax_dim1 [] = Inr []"
| "argmax_dim1 (row # rows) =
     (case argmax row of Inl e \<Rightarrow> Inl e
      | Inr i \<Rightarrow> (case argmax_dim1 rows of Inl e \<Rightarrow> Inl e | Inr js \<Rightarrow> Inr (i # js)))"

text \<open>
  \<^verbatim>\<open>a == b\<close> on one-dimensional tensors: element by element when the lengths agree,
  broadcast when one of them has a single element, a \<^verbatim>\<open>RuntimeError\<close> otherwise.
\<close>

definition tensor_eq :: "nat list \<Rightarrow> nat list \<Rightarrow> error + bool list" where
  "tensor_eq a b =
     (if length a = length b then Inr (map2 (=) a b)
      else if length a = 1 then Inr (map (\<lambda>v. hd a = v) b)
      else if length b = 1 then Inr (map (\<lambda>v. v = hd b) a)
      else Inl RuntimeError)"

text \<open>\<^verbatim>\<open>torch.sum(...)\<close> of a boolean tensor, read with \<^verbatim>\<open>.item()\<close>.\<close>

definition count_true :: "bool list \<Rightarrow> nat" where
  "count_true bs = length (filter (\<lambda>b. b) bs)"

text \<open>
  \<^verbatim>\<open>torch.sum(torch.argmax(output, dim=1) == torch.argmax(y, dim=1))\<close>, the expression that
  \<^verbatim>\<open>train_epoch\<close> and \<^verbatim>\<open>validate\<close> share.
\<close>

definition argmax_matches :: "tensor2 \<Rightarrow> tensor2 \<Rightarrow> error + nat" where
  "argmax_matches output y =
     (case argmax_dim1 output of Inl e \<Rightarrow> Inl e
      | Inr po \<Rightarrow>
         (case argmax_dim1 y of Inl e \<Rightarrow> Inl e
          | Inr py \<Rightarrow>
             (case tensor_eq po py of Inl e \<Rightarrow> Inl e | Inr eqs \<Rightarrow> Inr (count_true eqs))))"

section \<open>The classifier object and its external collaborators\<close>

text \<open>
  What the source calls and does not define is a parameter of the model: the numerical
  forward pass in training mode (batch normalisation updates its running statistics, so
  the parameters come back changed) and in evaluation mode (nothing is written),
  \<^verbatim>\<open>loss.backward()\<close> followed by \<^verbatim>\<open>optimizer.step()\<close> (with the
  \<^verbatim>\<open>optimizer.zero_grad()\<close> that opens the batch), \<^verbatim>\<open>scheduler.step\<close>,
  \<^verbatim>\<open>sklearn.metrics.f1_score\<close> with \<^verbatim>\<open>average="weighted"\<close>, and \<^verbatim>\<open>utils.get_model_path\<close>.
\<close>

record config =
  WANDB :: bool
  WANDB_PROJECT :: string
  DATASET :: string
  NUM_EPOCHS :: int
  EARLY_STOP_PATIENCE :: int
  SAVE_CLASSIFIER :: bool

record ('p, 'o) externals =
  net_train :: "'p \<Rightarrow> tensor3 \<Rightarrow> error + tensor2 \<times> 'p"
  net_eval :: "'p \<Rightarrow> tensor3 \<Rightarrow> error + tensor2"
  backward_step :: "'p \<Rightarrow> 'o \<Rightarrow> tensor3 \<Rightarrow> tensor2 \<Rightarrow> 'p \<times> 'o"
  scheduler_step :: "'o \<Rightarrow> loss_value \<Rightarrow> 'o"
  f1_score :: "nat list \<Rightarrow> nat list \<Rightarrow> error + real"
  get_model_path :: "config \<Rightarrow> string \<Rightarrow> string"

text \<open>
  The state of a \<^verbatim>\<open>Classifier_FCN\<close> instance: its parameters and buffers, the state of
  its optimizer and scheduler, and the mode flag that \<^verbatim>\<open>self.train()\<close> and
  \<^verbatim>\<open>self.eval()\<close> set.
\<close>

record ('p, 'o) classifier =
  params :: 'p
  optim :: 'o
  training :: bool

text \<open>\<^verbatim>\<open>self(X)\<close>: the forward pass in the mode the module is in.\<close>

definition forward ::
  "('p, 'o) externals \<Rightarrow> ('p, 'o) classifier \<Rightarrow> tensor3 \<Rightarrow> error + tensor2 \<times> ('p, 'o) classifier"
where
  "forward ext m X =
     (if training m
      then (case net_train ext (params m) X of Inl e \<Rightarrow> Inl e
            | Inr (out, p) \<Rightarrow> Inr (out, m\<lparr>params := p\<rparr>))
      else (case net_eval ext (params m) X of Inl e \<Rightarrow> Inl e
            | Inr out \<Rightarrow> Inr (out, m)))"

section \<open>\<^verbatim>\<open>train_epoch\<close>\<close>

text \<open>
  The body of the loop over the batches, with the three accumulators
  \<^verbatim>\<open>train_loss\<close>, \<^verbatim>\<open>correct\<close> and \<^verbatim>\<open>total\<close> passed along (the last one is
  written \<open>total_n\<close>, the name \<open>total\<close> being taken in HOL). The gradients that
  \<^verbatim>\<open>zero_grad\<close> clears and \<^verbatim>\<open>backward\<close> fills live inside \<open>backward_step\<close>.
\<close>

fun train_batches ::
  "('p, 'o) externals \<Rightarrow> (tensor2 \<times> tensor2) list
     \<Rightarrow> ('p, 'o) classifier \<times> loss_value \<times> nat \<times> nat
     \<Rightarrow> error + ('p, 'o) classifier \<times> loss_value \<times> nat \<times> nat"
where
  "train_batches ext [] s = Inr s"
| "train_batches ext ((X, y) # rest) (m, train_loss, correct, total_n) =
     (let X1 = to_default_device (unsqueeze1 X);
          y1 = to_default_device y
      in case forward ext m X1 of Inl e \<Rightarrow> Inl e
         | Inr (output, m1) \<Rightarrow>
            (case criterion output y1 of Inl e \<Rightarrow> Inl e
             | Inr loss \<Rightarrow>
                (let (p, opt) = backward_step ext (params m1) (optim m1) X1 y1;
                     m2 = m1\<lparr>params := p, optim := opt\<rparr>
                 in case argmax_matches output y1 of Inl e \<Rightarrow> Inl e
                    | Inr acc \<Rightarrow>
                       train_batches ext rest
                         (m2, loss_add train_loss loss, correct + acc, total_n + length y1))))"

definition train_epoch ::
  "('p, 'o) externals \<Rightarrow> ('p, 'o) classifier \<Rightarrow> (tensor2 \<times> tensor2) list
     \<Rightarrow> error + ('p, 'o) classifier \<times> loss_value \<times> real"
where
  "train_epoch ext m train_loader =
     (case train_batches ext train_loader (m\<lparr>training := True\<rparr>, Finite 0, 0, 0) of
        Inl e \<Rightarrow> Inl e
      | Inr (m1, train_loss, correct, total_n) \<Rightarrow>
         (case loss_div train_loss total_n of Inl e \<Rightarrow> Inl e
          | Inr epoch_loss \<Rightarrow>
             (let m2 = m1\<lparr>optim := scheduler_step ext (optim m1) epoch_loss\<rparr>;
                  epoch_acc = real correct / real total_n
              in Inr (m2, epoch_loss, epoch_acc))))"

section \<open>\<^verbatim>\<open>validate\<close>\<close>

text \<open>
  \<^verbatim>\<open>self.eval()\<close> clears the mode flag; under \<^verbatim>\<open>torch.no_grad()\<close> nothing is recorded
  for a backward pass. The accuracy is computed first (its division raises when the
  held-out set has no example), the weighted f1 after it, on the two index tensors.
\<close>

definition validate ::
  "('p, 'o) externals \<Rightarrow> ('p, 'o) classifier \<Rightarrow> tensor2 \<times> tensor2
     \<Rightarrow> error + ('p, 'o) classifier \<times> real \<times> real"
where
  "validate ext m test_data =
     (let m0 = m\<lparr>training := False\<rparr>;
          (x, y) = test_data;
          x1 = to_default_device (unsqueeze1 x);
          y1 = to_default_device y
      in case forward ext m0 x1 of Inl e \<Rightarrow> Inl e
         | Inr (y_pred, m1) \<Rightarrow>
            (case argmax_matches y_pred y1 of Inl e \<Rightarrow> Inl e
             | Inr matches \<Rightarrow>
                if length y1 = 0 then Inl ZeroDivisionError
                else (let accuracy = real matches / real (length y1)
                      in case argmax_dim1 y1 of Inl e \<Rightarrow> Inl e
                         | Inr y_true \<Rightarrow>
                            (case argmax_dim1 y_pred of Inl e \<Rightarrow> Inl e
                             | Inr y_hat \<Rightarrow>
                                (case f1_score ext y_true y_hat of Inl e \<Rightarrow> Inl e
                                 | Inr f1 \<Rightarrow> Inr (m1, accuracy, f1))))))"

section \<open>\<^verbatim>\<open>train_classifier\<close>\<close>

text \<open>
  What \<^verbatim>\<open>train_classifier\<close> does to the outside world, in the order it does it: the calls
  to the metric sink, the notices it prints, and the snapshot it saves.
\<close>

datatype event =
    Wandb_init string config "string list" string
  | Wandb_watch
  | Wandb_log loss_value real real real
  | Wandb_finish
  | Print_early_stop nat
  | Print_best_acc real
  | Torch_save string
  | Print_saved string

text \<open>The local variables that the epoch loop reads and writes.\<close>

record locals =
  best_acc :: real
  best_f1 :: real
  early_stop_counter :: int

text \<open>
  The loop \<^verbatim>\<open>for epoch in range(NUM_EPOCHS)\<close>, over the epochs that remain. Iterating
  over \<^verbatim>\<open>train_loader\<close> once more in every epoch may yield other batches every time,
  so the loader is a function of the epoch. A \<^verbatim>\<open>break\<close> returns at once. The
  progress bar that \<^verbatim>\<open>tqdm\<close> draws around the range is not among the events.
\<close>

fun epoch_loop ::
  "('p, 'o) externals \<Rightarrow> config \<Rightarrow> (nat \<Rightarrow> (tensor2 \<times> tensor2) list) \<Rightarrow> tensor2 \<times> tensor2
     \<Rightarrow> nat list \<Rightarrow> ('p, 'o) classifier \<times> locals \<times> event list
     \<Rightarrow> error + ('p, 'o) classifier \<times> locals \<times> event list"
where
  "epoch_loop ext cfg train_loader test_data [] s = Inr s"
| "epoch_loop ext cfg train_loader test_data (epoch # rest) (m, l, out) =
     (case train_epoch ext m (train_loader epoch) of Inl e \<Rightarrow> Inl e
      | Inr (m1, train_loss, train_acc) \<Rightarrow>
         (case validate ext m1 test_data of Inl e \<Rightarrow> Inl e
          | Inr (m2, test_acc, test_f1) \<Rightarrow>
             (let out1 = (if WANDB cfg
                          then out @ [Wandb_log train_loss train_acc test_acc test_f1]
                          else out)
              in if test_acc > best_acc l
                 then epoch_loop ext cfg train_loader test_data rest
                        (m2, l\<lparr>best_acc := test_acc, best_f1 := test_f1,
                                early_stop_counter := 0\<rparr>, out1)
                 else (let c = early_stop_counter l + 1
                       in if c \<ge> EARLY_STOP_PATIENCE cfg
                          then Inr (m2, l\<lparr>early_stop_counter := c\<rparr>,
                                    out1 @ [Print_early_stop epoch])
                          else epoch_loop ext cfg train_loader test_data rest
                                 (m2, l\<lparr>early_stop_counter := c\<rparr>, out1)))))"

text \<open>
  The training logs are a dictionary from strings to numbers. The function returns the
  model and the logs; the model here returns the events as well.
\<close>

definition train_classifier ::
  "('p, 'o) externals \<Rightarrow> ('p, 'o) classifier \<Rightarrow> (nat \<Rightarrow> (tensor2 \<times> tensor2) list)
     \<Rightarrow> tensor2 \<times> tensor2 \<Rightarrow> config \<Rightarrow> (string \<rightharpoonup> real) \<Rightarrow> string
     \<Rightarrow> error + ('p, 'o) classifier \<times> (string \<rightharpoonup> real) \<times> event list"
where
  "train_classifier ext m train_loader test_data cfg logs name =
     (let out0 = (if WANDB cfg
                  then [Wandb_init (WANDB_PROJECT cfg) cfg [''train'', DATASET cfg, name]
                          (DATASET cfg @ '' '' @ name),
                        Wandb_watch]
                  else []);
          l0 = \<lparr>best_acc = 0, best_f1 = 0, early_stop_counter = 0\<rparr>
      in case epoch_loop ext cfg train_loader test_data [0..<nat (NUM_EPOCHS cfg)]
                (m, l0, out0) of
           Inl e \<Rightarrow> Inl e
         | Inr (m1, l, out1) \<Rightarrow>
            (let out2 = out1 @ [Print_best_acc (best_acc l)];
                 logs1 = logs(name @ ''_best_acc'' \<mapsto> best_acc l);
                 logs2 = logs1(name @ ''_best_f1'' \<mapsto> best_f1 l);
                 out3 = (if WANDB cfg then out2 @ [Wandb_finish] else out2);
                 out4 = (if SAVE_CLASSIFIER cfg
                         then (let model_path = get_model_path ext cfg name
                               in out3 @ [Torch_save model_path, Print_saved model_path])
                         else out3)
             in Inr (m1, logs2, out4)))"

subsection \<open>The epochs of a run, one after the other\<close>

text \<open>
  One epoch is a training pass followed by a validation. \<open>model_after n\<close> is the model
  that \<open>n\<close> epochs leave behind when none of them stops the run, and \<open>epoch_at n\<close> is
  what epoch \<open>n\<close> (counted from 0) returns: the model, the training loss and accuracy,
  the validation accuracy and f1.
\<close>

definition run_epoch ::
  "('p, 'o) externals \<Rightarrow> ('p, 'o) classifier \<Rightarrow> (tensor2 \<times> tensor2) list \<Rightarrow> tensor2 \<times> tensor2
     \<Rightarrow> error + ('p, 'o) classifier \<times> loss_value \<times> real \<times> real \<times> real"
where
  "run_epoch ext m batches test_data =
     (case train_epoch ext m batches of Inl e \<Rightarrow> Inl e
      | Inr (m1, train_loss, train_acc) \<Rightarrow>
         (case validate ext m1 test_data of Inl e \<Rightarrow> Inl e
          | Inr (m2, test_acc, test_f1) \<Rightarrow>
             Inr (m2, train_loss, train_acc, test_acc, test_f1)))"

fun model_after ::
  "('p, 'o) externals \<Rightarrow> (nat \<Rightarrow> (tensor2 \<times> tensor2) list) \<Rightarrow> tensor2 \<times> tensor2
     \<Rightarrow> ('p, 'o) classifier \<Rightarrow> nat \<Rightarrow> error + ('p, 'o) classifier"
where
  "model_after ext train_loader test_data m 0 = Inr m"
| "model_after ext train_loader test_data m (Suc n) =
     (case model_after ext train_loader test_data m n of Inl e \<Rightarrow> Inl e
      | Inr mn \<Rightarrow>
         (case run_epoch ext mn (train_loader n) test_data of Inl e \<Rightarrow> Inl e
          | Inr (m2, r) \<Rightarrow> Inr m2))"

definition epoch_at ::
  "('p, 'o) externals \<Rightarrow> (nat \<Rightarrow> (tensor2 \<times> tensor2) list) \<Rightarrow> tensor2 \<times> tensor2
     \<Rightarrow> ('p, 'o) classifier \<Rightarrow> nat
     \<Rightarrow> error + ('p, 'o) classifier \<times> loss_value \<times> real \<times> real \<times> real"
where
  "epoch_at ext train_loader test_data m n =
     (case model_after ext train_loader test_data m n of Inl e \<Rightarrow> Inl e
      | Inr mn \<Rightarrow> run_epoch ext mn (train_loader n) test_data)"

text \<open>
  The first \<open>n\<close> epochs of the run succeed, and the validation of epoch \<open>i\<close> returns
  the accuracy \<open>a i\<close> and the f1 \<open>f i\<close>.
\<close>

definition observes ::
  "('p, 'o) externals \<Rightarrow> (nat \<Rightarrow> (tensor2 \<times> tensor2) list) \<Rightarrow> tensor2 \<times> tensor2
     \<Rightarrow> ('p, 'o) classifier \<Rightarrow> nat \<Rightarrow> (nat \<Rightarrow> real) \<Rightarrow> (nat \<Rightarrow> real) \<Rightarrow> bool"
where
  "observes ext train_loader test_data m n a f \<longleftrightarrow>
     (\<forall>i<n. \<exists>mi train_loss train_acc.
        epoch_at ext train_loader test_data m i = Inr (mi, train_loss, train_acc, a i, f i))"

section \<open>The shapes of the forward pass\<close>

text \<open>
  The layers that \<^verbatim>\<open>__init__\<close> builds, with the hyperparameters it gives them, and the
  shape that each layer returns for a batched input of shape (N, C, L). A layer raises
  when the shape does not fit it.
\<close>

record conv1d =
  in_channels :: nat
  out_channels :: nat
  kernel_size :: nat
  stride :: nat
  padding :: nat

record fcn_block =
  conv :: conv1d
  bn :: nat

record classifier_fcn =
  conv1 :: conv1d
  bn1 :: nat
  fcn_block1 :: fcn_block
  fcn_block2 :: fcn_block
  fcn_block3 :: fcn_block
  fc :: conv1d

definition FCNBlock :: "nat \<Rightarrow> nat \<Rightarrow> nat \<Rightarrow> nat \<Rightarrow> nat \<Rightarrow> fcn_block" where
  "FCNBlock i out k s p =
     \<lparr>conv = \<lparr>in_channels = i, out_channels = out, kernel_size = k, stride = s, padding = p\<rparr>,
      bn = out\<rparr>"

definition Classifier_FCN :: "nat \<Rightarrow> classifier_fcn" where
  "Classifier_FCN nb_classes =
     (let n_feature_maps = 64
      in \<lparr>conv1 = \<lparr>in_channels = 1, out_channels = n_feature_maps, kernel_size = 8,
                   stride = 1, padding = 4\<rparr>,
          bn1 = n_feature_maps,
          fcn_block1 = FCNBlock n_feature_maps n_feature_maps 3 1 1,
          fcn_block2 = FCNBlock n_feature_maps (n_feature_maps * 2) 3 1 1,
          fcn_block3 = FCNBlock (n_feature_maps * 2) (n_feature_maps * 2) 3 1 1,
          fc = \<lparr>in_channels = n_feature_maps * 2, out_channels = nb_classes, kernel_size = 1,
                stride = 1, padding = 0\<rparr>\<rparr>)"

text \<open>
  \<^verbatim>\<open>nn.Conv1d\<close> (dilation 1, one group): the channels of the input must be the layer's,
  the layer must have an output channel (a weight without one is refused when the layer
  is applied), the input must not be empty along its length, the padded input must not be
  shorter than the kernel, and the output has
  \<open>(L + 2 * padding - kernel_size) div stride + 1\<close> positions.
\<close>

definition conv1d_shape :: "conv1d \<Rightarrow> nat \<times> nat \<times> nat \<Rightarrow> error + nat \<times> nat \<times> nat" where
  "conv1d_shape c s =
     (case s of (n, ch, len) \<Rightarrow>
        if ch \<noteq> in_channels c \<or> stride c = 0 then Inl RuntimeError
        else if out_channels c = 0 \<or> len = 0 then Inl RuntimeError
        else if len + 2 * padding c < kernel_size c then Inl RuntimeError
        else Inr (n, out_channels c, (len + 2 * padding c - kernel_size c) div stride c + 1))"

text \<open>
  \<^verbatim>\<open>nn.BatchNorm1d\<close>: the channels must be the layer's, and in training mode a batch
  with a single value per channel is refused with a \<^verbatim>\<open>ValueError\<close>.
\<close>

definition batchnorm1d_shape :: "bool \<Rightarrow> nat \<Rightarrow> nat \<times> nat \<times> nat \<Rightarrow> error + nat \<times> nat \<times> nat" where
  "batchnorm1d_shape train num_features s =
     (case s of (n, ch, len) \<Rightarrow>
        if ch \<noteq> num_features then Inl RuntimeError
        else if train \<and> n * len = 1 then Inl ValueError
        else Inr s)"

definition relu_shape :: "nat \<times> nat \<times> nat \<Rightarrow> nat \<times> nat \<times> nat" where
  "relu_shape s = s"

definition FCNBlock_forward_shape ::
  "bool \<Rightarrow> fcn_block \<Rightarrow> nat \<times> nat \<times> nat \<Rightarrow> error + nat \<times> nat \<times> nat"
where
  "FCNBlock_forward_shape train b x =
     (case conv1d_shape (conv b) x of Inl e \<Rightarrow> Inl e
      | Inr out \<Rightarrow>
         (case batchnorm1d_shape train (bn b) out of Inl e \<Rightarrow> Inl e
          | Inr out \<Rightarrow> Inr (relu_shape out)))"

text \<open>\<^verbatim>\<open>nn.AdaptiveAvgPool1d(1)\<close>: one value per channel; nothing to average is an error.\<close>

definition global_avg_pool_shape :: "nat \<times> nat \<times> nat \<Rightarrow> error + nat \<times> nat \<times> nat" where
  "global_avg_pool_shape s =
     (case s of (n, ch, len) \<Rightarrow> if ch = 0 \<or> len = 0 then Inl RuntimeError else Inr (n, ch, 1))"

text \<open>\<^verbatim>\<open>.squeeze(-1)\<close> drops the last dimension when its size is 1.\<close>

definition squeeze_last :: "nat list \<Rightarrow> nat list" where
  "squeeze_last s = (if s \<noteq> [] \<and> last s = 1 then butlast s else s)"

definition forward_shape ::
  "bool \<Rightarrow> classifier_fcn \<Rightarrow> nat \<times> nat \<times> nat \<Rightarrow> error + nat list"
where
  "forward_shape train net x =
     (case conv1d_shape (conv1 net) x of Inl e \<Rightarrow> Inl e
      | Inr out \<Rightarrow>
     (case batchnorm1d_shape train (bn1 net) out of Inl e \<Rightarrow> Inl e
      | Inr out \<Rightarrow>
     (case FCNBlock_forward_shape train (fcn_block1 net) (relu_shape out) of Inl e \<Rightarrow> Inl e
      | Inr out \<Rightarrow>
     (case FCNBlock_forward_shape train (fcn_block2 net) out of Inl e \<Rightarrow> Inl e
      | Inr out \<Rightarrow>
     (case FCNBlock_forward_shape train (fcn_block3 net) out of Inl e \<Rightarrow> Inl e
      | Inr out \<Rightarrow>
     (case global_avg_pool_shape out of Inl e \<Rightarrow> Inl e
      | Inr out \<Rightarrow>
     (case conv1d_shape (fc net) out of Inl e \<Rightarrow> Inl e
      | Inr (n, ch, len) \<Rightarrow> Inr (squeeze_last [n, ch, len]))))))))"

section \<open>Reading a run, and test doubles for the externals\<close>

text \<open>The epochs named by the early-stopping notices among the events, in order.\<close>

fun early_stop_notices :: "event list \<Rightarrow> nat list" where
  "early_stop_notices [] = []"
| "early_stop_notices (Print_early_stop e # evs) = e # early_stop_notices evs"
| "early_stop_notices (ev # evs) = early_stop_notices evs"

text \<open>
  \<open>first_maximum a f n b g\<close>: among the accuracies \<open>a 0, \<dots>, a (n - 1)\<close>, with the
  value 0 that the best accuracy starts from, \<open>b\<close> is the largest and \<open>g\<close> is the f1 of
  the first epoch that reached it (0 when no accuracy was above 0).
\<close>

definition first_maximum :: "(nat \<Rightarrow> real) \<Rightarrow> (nat \<Rightarrow> real) \<Rightarrow> nat \<Rightarrow> real \<Rightarrow> real \<Rightarrow> bool" where
  "first_maximum a f n b g \<longleftrightarrow>
     ((\<forall>i<n. a i \<le> 0) \<and> b = 0 \<and> g = 0) \<or>
     (\<exists>j<n. 0 < a j \<and> (\<forall>i<j. a i < a j) \<and> (\<forall>i<n. a i \<le> a j) \<and> b = a j \<and> g = f j)"

text \<open>
  The weighted f1 of scikit-learn on class indices: the f1 of every class that occurs,
  \<open>2 tp / (2 tp + fp + fn)\<close> and 0 when nothing is to be divided, averaged with the number
  of true members of the class as its weight. Lists of different lengths and lists
  without entries are refused with a \<^verbatim>\<open>ValueError\<close>.
\<close>

definition class_f1 :: "nat list \<Rightarrow> nat list \<Rightarrow> nat \<Rightarrow> real" where
  "class_f1 y_true y_pred c =
     (let tp = length (filter (\<lambda>(t, p). t = c \<and> p = c) (zip y_true y_pred));
          fp = length (filter (\<lambda>(t, p). t \<noteq> c \<and> p = c) (zip y_true y_pred));
          fn = length (filter (\<lambda>(t, p). t = c \<and> p \<noteq> c) (zip y_true y_pred))
      in if 2 * tp + fp + fn = 0 then 0 else real (2 * tp) / real (2 * tp + fp + fn))"

definition weighted_f1 :: "nat list \<Rightarrow> nat list \<Rightarrow> error + real" where
  "weighted_f1 y_true y_pred =
     (if length y_true \<noteq> length y_pred \<or> y_true = [] then Inl ValueError
      else Inr (sum_list (map (\<lambda>c. real (count_list y_true c) * class_f1 y_true y_pred c)
                            (remdups (y_true @ y_pred)))
                / real (length y_true)))"

text \<open>
  A scripted network with two classes. Its parameter counts the optimizer steps taken so
  far. In training mode it answers class 0 for every example; in evaluation mode it
  answers what the script says for the number of steps taken and the first value of the
  example.
\<close>

definition scripted :: "(nat \<Rightarrow> real \<Rightarrow> real list) \<Rightarrow> (nat, unit) externals" where
  "scripted script =
     \<lparr>net_train = (\<lambda>p X. Inr (map (\<lambda>x. [1, 0]) X, p)),
      net_eval = (\<lambda>p X. Inr (map (\<lambda>x. case x of [v # vs] \<Rightarrow> script p v | _ \<Rightarrow> []) X)),
      backward_step = (\<lambda>p opt X y. (Suc p, opt)),
      scheduler_step = (\<lambda>opt loss. opt),
      f1_score = weighted_f1,
      get_model_path = (\<lambda>cfg name. DATASET cfg @ ''_'' @ name @ ''.pth'')\<rparr>"

text \<open>After \<open>p\<close> steps, the examples below \<open>h p\<close> are given class 0 and the others class 1.\<close>

definition threshold_script :: "(nat \<Rightarrow> nat) \<Rightarrow> nat \<Rightarrow> real \<Rightarrow> real list" where
  "threshold_script h p j = (if j < real (h p) then [1, 0] else [0, 1])"

definition one_batch :: "nat \<Rightarrow> (tensor2 \<times> tensor2) list" where
  "one_batch epoch = [([[0]], [[1, 0]])]"

text \<open>Ten held-out series of length 1, numbered by their value, all of class 0.\<close>

definition ten_examples :: "tensor2 \<times> tensor2" where
  "ten_examples =
     ([[0], [1], [2], [3], [4], [5], [6], [7], [8], [9]],
      [[1, 0], [1, 0], [1, 0], [1, 0], [1, 0], [1, 0], [1, 0], [1, 0], [1, 0], [1, 0]])"

text \<open>Four held-out series, three of class 0 and the last of class 1.\<close>

definition four_examples :: "tensor2 \<times> tensor2" where
  "four_examples = ([[0], [1], [2], [3]], [[1, 0], [1, 0], [1, 0], [0, 1]])"

definition fresh :: "(nat, unit) classifier" where
  "fresh = \<lparr>params = 0, optim = (), training = False\<rparr>"

definition after_steps :: "nat \<Rightarrow> (nat, unit) classifier" where
  "after_steps n = \<lparr>params = n, optim = (), training = False\<rparr>"

text \<open>
  With \<open>ten_examples\<close> and \<open>threshold_script h\<close>, epoch \<open>i\<close> validates after \<open>i + 1\<close>
  steps: \<open>h (i + 1)\<close> of the ten examples are right.
\<close>

definition acc_of :: "(nat \<Rightarrow> nat) \<Rightarrow> nat \<Rightarrow> real" where
  "acc_of h i = real (h (Suc i)) / 10"

definition f1_of :: "(nat \<Rightarrow> nat) \<Rightarrow> nat \<Rightarrow> real" where
  "f1_of h i = 2 * real (h (Suc i)) / (real (h (Suc i)) + 10)"

definition run_config :: "int \<Rightarrow> int \<Rightarrow> config" where
  "run_config num_epochs patience =
     \<lparr>WANDB = False, WANDB_PROJECT = ''ascension'', DATASET = ''ECG200'',
      NUM_EPOCHS = num_epochs, EARLY_STOP_PATIENCE = patience, SAVE_CLASSIFIER = False\<rparr>"

text \<open>The same with the metric sink and the saving of the model switched on.\<close>

definition tracked_config :: "int \<Rightarrow> int \<Rightarrow> config" where
  "tracked_config num_epochs patience =
     \<lparr>WANDB = True, WANDB_PROJECT = ''ascension'', DATASET = ''ECG200'',
      NUM_EPOCHS = num_epochs, EARLY_STOP_PATIENCE = patience, SAVE_CLASSIFIER = True\<rparr>"

text \<open>The accuracies 0.7, 0.6, 0.5, 0.5, 0.5, \<dots>\<close>

definition hits_765 :: "nat \<Rightarrow> nat" where
  "hits_765 p = (if p = 1 then 7 else if p = 2 then 6 else 5)"

text \<open>The accuracies 0.8, 0.8, 0.8, 0.9, 0.8, \<dots>\<close>

definition hits_8889 :: "nat \<Rightarrow> nat" where
  "hits_8889 p = (if p = 4 then 9 else 8)"

text \<open>The accuracies 0.5, 0.7, 0.6, 0.5, 0.5, \<dots>\<close>

definition hits_5765 :: "nat \<Rightarrow> nat" where
  "hits_5765 p = (if p = 1 then 5 else if p = 2 then 7 else if p = 3 then 6 else 5)"

text \<open>The accuracies 0, 0.5, 0.4, 0.4, 0.4, \<dots>\<close>

definition hits_0544 :: "nat \<Rightarrow> nat" where
  "hits_0544 p = (if p = 1 then 0 else if p = 2 then 5 else 4)"

text \<open>No example is ever right.\<close>

definition hits_none :: "nat \<Rightarrow> nat" where
  "hits_none p = 0"

text \<open>
  On \<open>four_examples\<close>: after one step every example is given class 0, after two steps
  only the first two are.
\<close>

definition hits_42 :: "nat \<Rightarrow> nat" where
  "hits_42 p = (if p = 1 then 4 else 2)"

text \<open>
  A frozen network: logit 0 for both classes of every example, and an optimizer that
  changes nothing.
\<close>

definition frozen :: "(unit, unit) externals" where
  "frozen =
     \<lparr>net_train = (\<lambda>p X. Inr (map (\<lambda>x. [0, 0]) X, p)),
      net_eval = (\<lambda>p X. Inr (map (\<lambda>x. [0, 0]) X)),
      backward_step = (\<lambda>p opt X y. (p, opt)),
      scheduler_step = (\<lambda>opt loss. opt),
      f1_score = weighted_f1,
      get_model_path = (\<lambda>cfg name. name)\<rparr>"

definition frozen_model :: "bool \<Rightarrow> (unit, unit) classifier" where
  "frozen_model t = \<lparr>params = (), optim = (), training = t\<rparr>"

section \<open>Stepping through the epoch loop\<close>

lemma early_stop_notices_append:
  "early_stop_notices (xs @ ys) = early_stop_notices xs @ early_stop_notices ys"
  by (induction xs rule: early_stop_notices.induct) simp_all

lemma epoch_at_model_after:
  assumes "epoch_at ext ld td m i = Inr (m2, r)"
  shows "\<exists>mi. model_after ext ld td m i = Inr mi \<and> run_epoch ext mi (ld i) td = Inr (m2, r)"
    and "model_after ext ld td m (Suc i) = Inr m2"
  using assms by (auto simp: epoch_at_def split: sum.splits)

lemma epoch_loop_step:
  assumes "model_after ext ld td m i = Inr mi"
    and "epoch_at ext ld td m i = Inr (m2, train_loss, train_acc, test_acc, test_f1)"
  shows "epoch_loop ext cfg ld td (i # rest) (mi, l, out) =
     (let out1 = (if WANDB cfg
                  then out @ [Wandb_log train_loss train_acc test_acc test_f1]
                  else out)
      in if test_acc > best_acc l
         then epoch_loop ext cfg ld td rest
                (m2, l\<lparr>best_acc := test_acc, best_f1 := test_f1, early_stop_counter := 0\<rparr>, out1)
         else (let c = early_stop_counter l + 1
               in if c \<ge> EARLY_STOP_PATIENCE cfg
                  then Inr (m2, l\<lparr>early_stop_counter := c\<rparr>, out1 @ [Print_early_stop i])
                  else epoch_loop ext cfg ld td rest (m2, l\<lparr>early_stop_counter := c\<rparr>, out1)))"
  using assms
  by (auto simp: epoch_at_def run_epoch_def Let_def split: sum.splits prod.splits)

lemma observesD:
  assumes "observes ext ld td m n a f" "i < n"
  obtains mi m2 train_loss train_acc where
    "model_after ext ld td m i = Inr mi"
    "epoch_at ext ld td m i = Inr (m2, train_loss, train_acc, a i, f i)"
    "model_after ext ld td m (Suc i) = Inr m2"
proof -
  from assms obtain m2 train_loss train_acc where
    e: "epoch_at ext ld td m i = Inr (m2, train_loss, train_acc, a i, f i)"
    unfolding observes_def by blast
  from epoch_at_model_after[OF e] e that show thesis by blast
qed

lemma observes_mono: "observes ext ld td m n a f \<Longrightarrow> k \<le> n \<Longrightarrow> observes ext ld td m k a f"
  by (simp add: observes_def)

text \<open>One epoch of the loop, in the three ways it can go.\<close>

lemma step_improve:
  assumes "observes ext ld td m (Suc i) a f"
    and "model_after ext ld td m i = Inr mi"
    and "best_acc l < a i"
  shows "\<exists>m2 out1. model_after ext ld td m (Suc i) = Inr m2 \<and>
           epoch_loop ext cfg ld td (i # rest) (mi, l, out) =
             epoch_loop ext cfg ld td rest
               (m2, l\<lparr>best_acc := a i, best_f1 := f i, early_stop_counter := 0\<rparr>, out1) \<and>
           early_stop_notices out1 = early_stop_notices out"
proof -
  from assms(1) obtain mi' m2 train_loss train_acc where
    ma: "model_after ext ld td m i = Inr mi'"
    and ea: "epoch_at ext ld td m i = Inr (m2, train_loss, train_acc, a i, f i)"
    and ms: "model_after ext ld td m (Suc i) = Inr m2"
    by (auto elim!: observesD[where i = i])
  from ma assms(2) have ma': "model_after ext ld td m i = Inr mi" by simp
  show ?thesis
    using ms assms(3)
    by (intro exI[of _ m2]
          exI[of _ "if WANDB cfg then out @ [Wandb_log train_loss train_acc (a i) (f i)] else out"])
       (simp add: epoch_loop_step[OF ma' ea] Let_def early_stop_notices_append
          del: epoch_loop.simps model_after.simps)
qed

lemma step_stall:
  assumes "observes ext ld td m (Suc i) a f"
    and "model_after ext ld td m i = Inr mi"
    and "a i \<le> best_acc l"
    and "early_stop_counter l + 1 < EARLY_STOP_PATIENCE cfg"
  shows "\<exists>m2 out1. model_after ext ld td m (Suc i) = Inr m2 \<and>
           epoch_loop ext cfg ld td (i # rest) (mi, l, out) =
             epoch_loop ext cfg ld td rest
               (m2, l\<lparr>early_stop_counter := early_stop_counter l + 1\<rparr>, out1) \<and>
           early_stop_notices out1 = early_stop_notices out"
proof -
  from assms(1) obtain mi' m2 train_loss train_acc where
    ma: "model_after ext ld td m i = Inr mi'"
    and ea: "epoch_at ext ld td m i = Inr (m2, train_loss, train_acc, a i, f i)"
    and ms: "model_after ext ld td m (Suc i) = Inr m2"
    by (auto elim!: observesD[where i = i])
  from ma assms(2) have ma': "model_after ext ld td m i = Inr mi" by simp
  show ?thesis
    using ms assms(3,4)
    by (intro exI[of _ m2]
          exI[of _ "if WANDB cfg then out @ [Wandb_log train_loss train_acc (a i) (f i)] else out"])
       (simp add: epoch_loop_step[OF ma' ea] Let_def early_stop_notices_append not_less
          del: epoch_loop.simps model_after.simps)
qed

lemma step_break:
  assumes "observes ext ld td m (Suc i) a f"
    and "model_after ext ld td m i = Inr mi"
    and "a i \<le> best_acc l"
    and "EARLY_STOP_PATIENCE cfg \<le> early_stop_counter l + 1"
  shows "\<exists>m2 out1. model_after ext ld td m (Suc i) = Inr m2 \<and>
           epoch_loop ext cfg ld td (i # rest) (mi, l, out) =
             Inr (m2, l\<lparr>early_stop_counter := early_stop_counter l + 1\<rparr>, out1) \<and>
           early_stop_notices out1 = early_stop_notices out @ [i]"
proof -
  from assms(1) obtain mi' m2 train_loss train_acc where
    ma: "model_after ext ld td m i = Inr mi'"
    and ea: "epoch_at ext ld td m i = Inr (m2, train_loss, train_acc, a i, f i)"
    and ms: "model_after ext ld td m (Suc i) = Inr m2"
    by (auto elim!: observesD[where i = i])
  from ma assms(2) have ma': "model_after ext ld td m i = Inr mi" by simp
  show ?thesis
    using ms assms(3,4)
    by (intro exI[of _ m2]
          exI[of _ "(if WANDB cfg then out @ [Wandb_log train_loss train_acc (a i) (f i)] else out)
                    @ [Print_early_stop i]"])
       (simp add: epoch_loop_step[OF ma' ea] Let_def early_stop_notices_append not_less
          del: epoch_loop.simps model_after.simps)
qed

text \<open>A stall that lasts until the patience is used up ends in the early stop.\<close>

lemma stall_breaks:
  assumes "observes ext ld td m (j + r) a f"
    and "model_after ext ld td m j = Inr mj"
    and "early_stop_counter l + int r = EARLY_STOP_PATIENCE cfg"
    and "0 < r"
    and "\<forall>i. j \<le> i \<and> i < j + r \<longrightarrow> a i \<le> best_acc l"
    and "j + r \<le> n"
  shows "\<exists>m' out'. model_after ext ld td m (j + r) = Inr m' \<and>
           epoch_loop ext cfg ld td [j..<n] (mj, l, out) =
             Inr (m', l\<lparr>early_stop_counter := EARLY_STOP_PATIENCE cfg\<rparr>, out') \<and>
           early_stop_notices out' = early_stop_notices out @ [j + r - 1]"
  using assms
proof (induction r arbitrary: j mj l out)
  case 0
  then show ?case by simp
next
  case (Suc r)
  have obs: "observes ext ld td m (Suc j) a f"
    using Suc.prems(1) by (rule observes_mono) simp
  have le: "a j \<le> best_acc l" using Suc.prems(5) by simp
  have cons: "[j..<n] = j # [Suc j..<n]" using Suc.prems(6) by (simp add: upt_conv_Cons)
  show ?case
  proof (cases "r = 0")
    case True
    then have c: "EARLY_STOP_PATIENCE cfg \<le> early_stop_counter l + 1"
      and c': "early_stop_counter l + 1 = EARLY_STOP_PATIENCE cfg"
      using Suc.prems(3) by simp_all
    from step_break[OF obs Suc.prems(2) le c, of "[Suc j..<n]" out]
    show ?thesis using True by (auto simp: cons c')
  next
    case False
    let ?l = "l\<lparr>early_stop_counter := early_stop_counter l + 1\<rparr>"
    have lt: "early_stop_counter l + 1 < EARLY_STOP_PATIENCE cfg"
      using False Suc.prems(3) by simp
    from step_stall[OF obs Suc.prems(2) le lt, of "[Suc j..<n]" out]
    obtain m2 out1 where ms: "model_after ext ld td m (Suc j) = Inr m2"
      and step: "epoch_loop ext cfg ld td [j..<n] (mj, l, out) =
                epoch_loop ext cfg ld td [Suc j..<n] (m2, ?l, out1)"
      and ev: "early_stop_notices out1 = early_stop_notices out"
      by (auto simp: cons)
    have "\<exists>m' out'. model_after ext ld td m (Suc j + r) = Inr m' \<and>
           epoch_loop ext cfg ld td [Suc j..<n] (m2, ?l, out1) =
             Inr (m', ?l\<lparr>early_stop_counter := EARLY_STOP_PATIENCE cfg\<rparr>, out') \<and>
           early_stop_notices out' = early_stop_notices out1 @ [Suc j + r - 1]"
    proof (rule Suc.IH)
      show "observes ext ld td m (Suc j + r) a f" using Suc.prems(1) by simp
      show "model_after ext ld td m (Suc j) = Inr m2" by (rule ms)
      show "early_stop_counter ?l + int r = EARLY_STOP_PATIENCE cfg" using Suc.prems(3) by simp
      show "0 < r" using False by simp
      show "\<forall>i. Suc j \<le> i \<and> i < Suc j + r \<longrightarrow> a i \<le> best_acc ?l" using Suc.prems(5) by simp
      show "Suc j + r \<le> n" using Suc.prems(6) by simp
    qed
    then show ?thesis
      using step ev by auto
  qed
qed

text \<open>A strict climb from the first epoch on renews the best values in every epoch.\<close>

lemma climb:
  assumes "observes ext ld td m (Suc k) a f"
    and "k < n"
    and "\<forall>i<k. a i < a (Suc i)"
    and "best_acc l < a 0"
  shows "\<exists>mk out'. model_after ext ld td m (Suc k) = Inr mk \<and>
           epoch_loop ext cfg ld td [0..<n] (m, l, out) =
             epoch_loop ext cfg ld td [Suc k..<n]
               (mk, l\<lparr>best_acc := a k, best_f1 := f k, early_stop_counter := 0\<rparr>, out') \<and>
           early_stop_notices out' = early_stop_notices out"
  using assms
proof (induction k)
  case 0
  have ma: "model_after ext ld td m 0 = Inr m" by simp
  have cons: "[0..<n] = 0 # [Suc 0..<n]" using 0(2) by (simp add: upt_conv_Cons)
  from step_improve[OF 0(1) ma 0(4), of cfg "[Suc 0..<n]" out]
  show ?case by (simp only: cons)
next
  case (Suc k)
  have "\<exists>mk out'. model_after ext ld td m (Suc k) = Inr mk \<and>
           epoch_loop ext cfg ld td [0..<n] (m, l, out) =
             epoch_loop ext cfg ld td [Suc k..<n]
               (mk, l\<lparr>best_acc := a k, best_f1 := f k, early_stop_counter := 0\<rparr>, out') \<and>
           early_stop_notices out' = early_stop_notices out"
    using Suc.prems by (intro Suc.IH) (auto intro: observes_mono)
  then obtain mk out1 where
    mk: "model_after ext ld td m (Suc k) = Inr mk"
    and run: "epoch_loop ext cfg ld td [0..<n] (m, l, out) =
             epoch_loop ext cfg ld td [Suc k..<n]
               (mk, l\<lparr>best_acc := a k, best_f1 := f k, early_stop_counter := 0\<rparr>, out1)"
    and ev: "early_stop_notices out1 = early_stop_notices out"
    by blast
  let ?l = "l\<lparr>best_acc := a k, best_f1 := f k, early_stop_counter := 0\<rparr>"
  have cons: "[Suc k..<n] = Suc k # [Suc (Suc k)..<n]"
    using Suc.prems(2) by (simp add: upt_conv_Cons)
  have up: "best_acc ?l < a (Suc k)" using Suc.prems(3) by simp
  from step_improve[OF Suc.prems(1) mk up, of cfg "[Suc (Suc k)..<n]" out1]
  show ?case
    using ev by (auto simp: run cons simp del: epoch_loop.simps)
qed

text \<open>What \<^verbatim>\<open>train_classifier\<close> makes of the result of its loop.\<close>

lemma best_keys_differ: "name @ ''_best_acc'' \<noteq> name' @ ''_best_f1''"
proof
  assume "name @ ''_best_acc'' = name' @ ''_best_f1''"
  then have "last (name @ ''_best_acc'') = last (name' @ ''_best_f1'')" by simp
  then show False by simp
qed

lemma train_classifier_of_loop:
  assumes "\<And>out. \<exists>out'. epoch_loop ext cfg ld td [0..<nat (NUM_EPOCHS cfg)]
              (m, \<lparr>best_acc = 0, best_f1 = 0, early_stop_counter = 0\<rparr>, out) = Inr (m', l', out')
            \<and> early_stop_notices out' = early_stop_notices out @ ns"
  shows "\<exists>out'. train_classifier ext m ld td cfg logs name =
           Inr (m', logs(name @ ''_best_acc'' \<mapsto> best_acc l', name @ ''_best_f1'' \<mapsto> best_f1 l'), out')
         \<and> early_stop_notices out' = ns"
proof -
  let ?out0 = "if WANDB cfg
               then [Wandb_init (WANDB_PROJECT cfg) cfg [''train'', DATASET cfg, name]
                       (DATASET cfg @ '' '' @ name), Wandb_watch]
               else []"
  from assms[of ?out0] obtain out' where
    run: "epoch_loop ext cfg ld td [0..<nat (NUM_EPOCHS cfg)]
              (m, \<lparr>best_acc = 0, best_f1 = 0, early_stop_counter = 0\<rparr>, ?out0) = Inr (m', l', out')"
    and ev: "early_stop_notices out' = early_stop_notices ?out0 @ ns"
    by blast
  have ev0: "early_stop_notices ?out0 = []" by simp
  show ?thesis
    unfolding train_classifier_def Let_def run
    using ev ev0 by (simp add: early_stop_notices_append)
qed


lemma nonincreasing_after:
  assumes "\<forall>i. k \<le> i \<and> i < k + r \<longrightarrow> a (Suc i) \<le> a i"
  shows "i \<le> r \<Longrightarrow> a (k + i) \<le> (a k :: real)"
proof (induction i)
  case 0
  show ?case by simp
next
  case (Suc i)
  then have "a (k + i) \<le> a k" by simp
  moreover have "a (Suc (k + i)) \<le> a (k + i)" using assms Suc.prems by simp
  ultimately show ?case by simp
qed

lemma climb_then_stall:
  assumes obs: "observes ext ld td m (Suc k + r) a f"
    and pat: "EARLY_STOP_PATIENCE cfg = int r"
    and r: "0 < r"
    and n: "Suc k + r \<le> n"
    and first: "0 < a 0"
    and up: "\<forall>i<k. a i < a (Suc i)"
    and down: "\<forall>i. k \<le> i \<and> i < k + r \<longrightarrow> a (Suc i) \<le> a i"
  shows "\<exists>m' out'. model_after ext ld td m (Suc k + r) = Inr m' \<and>
           epoch_loop ext cfg ld td [0..<n]
             (m, \<lparr>best_acc = 0, best_f1 = 0, early_stop_counter = 0\<rparr>, out) =
             Inr (m', \<lparr>best_acc = a k, best_f1 = f k, early_stop_counter = int r\<rparr>, out') \<and>
           early_stop_notices out' = early_stop_notices out @ [k + r]"
proof -
  let ?init = "\<lparr>best_acc = 0, best_f1 = 0, early_stop_counter = 0\<rparr>"
  let ?lk = "\<lparr>best_acc = a k, best_f1 = f k, early_stop_counter = 0\<rparr>"
  have obs1: "observes ext ld td m (Suc k) a f" using obs by (rule observes_mono) simp
  have kn: "k < n" using n by simp
  have b0: "best_acc ?init < a 0" using first by simp
  from climb[OF obs1 kn up b0, of cfg out] obtain mk out1 where
    mk: "model_after ext ld td m (Suc k) = Inr mk"
    and run1: "epoch_loop ext cfg ld td [0..<n] (m, ?init, out) =
               epoch_loop ext cfg ld td [Suc k..<n] (mk, ?lk, out1)"
    and ev1: "early_stop_notices out1 = early_stop_notices out"
    by auto
  have c: "early_stop_counter ?lk + int r = EARLY_STOP_PATIENCE cfg" using pat by simp
  have le: "\<forall>i. Suc k \<le> i \<and> i < Suc k + r \<longrightarrow> a i \<le> best_acc ?lk"
  proof (intro allI impI)
    fix i assume i: "Suc k \<le> i \<and> i < Suc k + r"
    then have "i - k \<le> r" and "k + (i - k) = i" by arith+
    with nonincreasing_after[OF down, of "i - k"] show "a i \<le> best_acc ?lk" by simp
  qed
  from stall_breaks[OF obs mk c r le n, of out1] obtain m' out' where
    "model_after ext ld td m (Suc k + r) = Inr m'"
    "epoch_loop ext cfg ld td [Suc k..<n] (mk, ?lk, out1) =
       Inr (m', ?lk\<lparr>early_stop_counter := EARLY_STOP_PATIENCE cfg\<rparr>, out')"
    "early_stop_notices out' = early_stop_notices out1 @ [Suc k + r - 1]"
    by blast
  then show ?thesis using run1 ev1 pat by simp
qed

text \<open>The same for \<^verbatim>\<open>train_classifier\<close> as a whole.\<close>

lemma train_classifier_early_stop:
  assumes obs: "observes ext ld td m (Suc (k + r)) a f"
    and pat: "EARLY_STOP_PATIENCE cfg = int r"
    and r: "0 < r"
    and N: "int (Suc (k + r)) \<le> NUM_EPOCHS cfg"
    and first: "0 < a 0"
    and up: "\<forall>i<k. a i < a (Suc i)"
    and down: "\<forall>i. k \<le> i \<and> i < k + r \<longrightarrow> a (Suc i) \<le> a i"
  shows "\<exists>m' out'. train_classifier ext m ld td cfg logs name =
           Inr (m', logs(name @ ''_best_acc'' \<mapsto> a k, name @ ''_best_f1'' \<mapsto> f k), out') \<and>
         model_after ext ld td m (Suc (k + r)) = Inr m' \<and>
         early_stop_notices out' = [k + r]"
proof -
  let ?init = "\<lparr>best_acc = 0, best_f1 = 0, early_stop_counter = 0\<rparr>"
  let ?final = "\<lparr>best_acc = a k, best_f1 = f k, early_stop_counter = int r\<rparr>"
  have obs': "observes ext ld td m (Suc k + r) a f" using obs by simp
  have n: "Suc k + r \<le> nat (NUM_EPOCHS cfg)" using N by simp
  from obs obtain m' where m': "model_after ext ld td m (Suc (k + r)) = Inr m'"
    by (auto elim!: observesD[where i = "k + r"])
  have loop: "\<exists>out'. epoch_loop ext cfg ld td [0..<nat (NUM_EPOCHS cfg)] (m, ?init, out) =
                  Inr (m', ?final, out') \<and>
                early_stop_notices out' = early_stop_notices out @ [k + r]" for out
    using climb_then_stall[OF obs' pat r n first up down, of out] m' by auto
  from train_classifier_of_loop[of ext cfg ld td m m' ?final "[k + r]" logs name, OF loop] m'
  show ?thesis by simp
qed

text \<open>
  An accuracy is a count divided by a count. A run whose first accuracy is 0 stalls for
  one epoch and climbs from the second epoch on.
\<close>

lemma validate_accuracy_nonneg:
  assumes "validate ext m test_data = Inr (m1, accuracy, f1)"
  shows "0 \<le> accuracy"
  using assms
  by (auto simp: validate_def Let_def split: sum.splits prod.splits if_splits)

lemma observes_nonneg:
  assumes "observes ext ld td m n a f" and "i < n"
  shows "0 \<le> a i"
proof -
  from assms obtain m2 train_loss train_acc where
    "epoch_at ext ld td m i = Inr (m2, train_loss, train_acc, a i, f i)"
    unfolding observes_def by blast
  then obtain mi m1 where "validate ext m1 td = Inr (m2, a i, f i)"
    by (auto simp: epoch_at_def run_epoch_def split: sum.splits prod.splits)
  then show ?thesis by (rule validate_accuracy_nonneg)
qed

lemma climb_from:
  assumes "observes ext ld td m (Suc (j + d)) a f"
    and "model_after ext ld td m j = Inr mj"
    and "j + d < n"
    and "\<forall>i. j \<le> i \<and> i < j + d \<longrightarrow> a i < a (Suc i)"
    and "best_acc l < a j"
  shows "\<exists>mk out'. model_after ext ld td m (Suc (j + d)) = Inr mk \<and>
           epoch_loop ext cfg ld td [j..<n] (mj, l, out) =
             epoch_loop ext cfg ld td [Suc (j + d)..<n]
               (mk, l\<lparr>best_acc := a (j + d), best_f1 := f (j + d), early_stop_counter := 0\<rparr>,
                out') \<and>
           early_stop_notices out' = early_stop_notices out"
  using assms
proof (induction d)
  case 0
  have cons: "[j..<n] = j # [Suc j..<n]" using 0(3) by (simp add: upt_conv_Cons)
  have obs: "observes ext ld td m (Suc j) a f" using 0(1) by simp
  from step_improve[OF obs 0(2) 0(5), of cfg "[Suc j..<n]" out]
  show ?case by (simp only: cons add_0_right)
next
  case (Suc d)
  have "\<exists>mk out'. model_after ext ld td m (Suc (j + d)) = Inr mk \<and>
           epoch_loop ext cfg ld td [j..<n] (mj, l, out) =
             epoch_loop ext cfg ld td [Suc (j + d)..<n]
               (mk, l\<lparr>best_acc := a (j + d), best_f1 := f (j + d), early_stop_counter := 0\<rparr>,
                out') \<and>
           early_stop_notices out' = early_stop_notices out"
    using Suc.prems by (intro Suc.IH) (auto intro: observes_mono)
  then obtain mk out1 where
    mk: "model_after ext ld td m (Suc (j + d)) = Inr mk"
    and run: "epoch_loop ext cfg ld td [j..<n] (mj, l, out) =
             epoch_loop ext cfg ld td [Suc (j + d)..<n]
               (mk, l\<lparr>best_acc := a (j + d), best_f1 := f (j + d), early_stop_counter := 0\<rparr>,
                out1)"
    and ev: "early_stop_notices out1 = early_stop_notices out"
    by blast
  let ?l = "l\<lparr>best_acc := a (j + d), best_f1 := f (j + d), early_stop_counter := 0\<rparr>"
  have cons: "[Suc (j + d)..<n] = Suc (j + d) # [Suc (Suc (j + d))..<n]"
    using Suc.prems(3) by (simp add: upt_conv_Cons)
  have up: "best_acc ?l < a (Suc (j + d))" using Suc.prems(4) by simp
  have obs: "observes ext ld td m (Suc (Suc (j + d))) a f" using Suc.prems(1) by simp
  from step_improve[OF obs mk up, of cfg "[Suc (Suc (j + d))..<n]" out1]
  show ?case
    using ev by (auto simp: run cons simp del: epoch_loop.simps model_after.simps)
qed

lemma train_classifier_early_stop_after_zero:
  assumes obs: "observes ext ld td m (Suc (k + r)) a f"
    and pat: "EARLY_STOP_PATIENCE cfg = int r"
    and r: "2 \<le> r"
    and N: "int (Suc (k + r)) \<le> NUM_EPOCHS cfg"
    and zero: "a 0 = 0"
    and k: "1 \<le> k"
    and up: "\<forall>i<k. a i < a (Suc i)"
    and down: "\<forall>i. k \<le> i \<and> i < k + r \<longrightarrow> a (Suc i) \<le> a i"
  shows "\<exists>m' out'. train_classifier ext m ld td cfg logs name =
           Inr (m', logs(name @ ''_best_acc'' \<mapsto> a k, name @ ''_best_f1'' \<mapsto> f k), out') \<and>
         model_after ext ld td m (Suc (k + r)) = Inr m' \<and>
         early_stop_notices out' = [k + r]"
proof -
  let ?init = "\<lparr>best_acc = 0, best_f1 = 0, early_stop_counter = 0\<rparr>"
  let ?one = "\<lparr>best_acc = 0, best_f1 = 0, early_stop_counter = 1\<rparr>"
  let ?top = "\<lparr>best_acc = a k, best_f1 = f k, early_stop_counter = 0\<rparr>"
  let ?final = "\<lparr>best_acc = a k, best_f1 = f k, early_stop_counter = int r\<rparr>"
  let ?n = "nat (NUM_EPOCHS cfg)"
  obtain d where d: "k = Suc d" using k by (cases k) auto
  have n: "Suc k + r \<le> ?n" using N by simp
  from obs obtain m' where m': "model_after ext ld td m (Suc (k + r)) = Inr m'"
    by (auto elim!: observesD[where i = "k + r"])
  have loop: "\<exists>out'. epoch_loop ext cfg ld td [0..<?n] (m, ?init, out) = Inr (m', ?final, out') \<and>
                early_stop_notices out' = early_stop_notices out @ [k + r]" for out
  proof -
    have obs0: "observes ext ld td m (Suc 0) a f" using obs by (rule observes_mono) simp
    have ma0: "model_after ext ld td m 0 = Inr m" by simp
    have le0: "a 0 \<le> best_acc ?init" using zero by simp
    have c0: "early_stop_counter ?init + 1 < EARLY_STOP_PATIENCE cfg" using pat r by simp
    have cons: "[0..<?n] = 0 # [Suc 0..<?n]" using n by (simp add: upt_conv_Cons)
    from step_stall[OF obs0 ma0 le0 c0, of "[Suc 0..<?n]" out] obtain m1 out1 where
      m1: "model_after ext ld td m (Suc 0) = Inr m1"
      and run0: "epoch_loop ext cfg ld td [0..<?n] (m, ?init, out) =
                 epoch_loop ext cfg ld td [Suc 0..<?n] (m1, ?one, out1)"
      and ev0: "early_stop_notices out1 = early_stop_notices out"
      by (auto simp: cons simp del: epoch_loop.simps model_after.simps)
    have obs1: "observes ext ld td m (Suc (Suc 0 + d)) a f"
      using obs d by (auto intro: observes_mono)
    have lt1: "Suc 0 + d < ?n" using n d by simp
    have up1: "\<forall>i. Suc 0 \<le> i \<and> i < Suc 0 + d \<longrightarrow> a i < a (Suc i)" using up d by simp
    have "a 0 < a (Suc 0)" using up d by simp
    then have b1: "best_acc ?one < a (Suc 0)" using zero by simp
    from climb_from[OF obs1 m1 lt1 up1 b1, of cfg out1] obtain mk out2 where
      mk: "model_after ext ld td m (Suc k) = Inr mk"
      and run1: "epoch_loop ext cfg ld td [Suc 0..<?n] (m1, ?one, out1) =
                 epoch_loop ext cfg ld td [Suc k..<?n] (mk, ?top, out2)"
      and ev1: "early_stop_notices out2 = early_stop_notices out1"
      by (auto simp: d simp del: epoch_loop.simps model_after.simps)
    have obs2: "observes ext ld td m (Suc k + r) a f" using obs by simp
    have c2: "early_stop_counter ?top + int r = EARLY_STOP_PATIENCE cfg" using pat by simp
    have r0: "0 < r" using r by simp
    have le2: "\<forall>i. Suc k \<le> i \<and> i < Suc k + r \<longrightarrow> a i \<le> best_acc ?top"
    proof (intro allI impI)
      fix i assume i: "Suc k \<le> i \<and> i < Suc k + r"
      then have "i - k \<le> r" and "k + (i - k) = i" by arith+
      with nonincreasing_after[OF down, of "i - k"] show "a i \<le> best_acc ?top" by simp
    qed
    from stall_breaks[OF obs2 mk c2 r0 le2 n, of out2] obtain m'' out' where
      "model_after ext ld td m (Suc k + r) = Inr m''"
      "epoch_loop ext cfg ld td [Suc k..<?n] (mk, ?top, out2) =
         Inr (m'', ?top\<lparr>early_stop_counter := EARLY_STOP_PATIENCE cfg\<rparr>, out')"
      "early_stop_notices out' = early_stop_notices out2 @ [Suc k + r - 1]"
      by blast
    then show ?thesis
      using run0 run1 ev0 ev1 pat m' by (simp del: epoch_loop.simps model_after.simps)
  qed
  from train_classifier_of_loop[of ext cfg ld td m m' ?final "[k + r]" logs name, OF loop] m'
  show ?thesis by (simp del: model_after.simps)
qed

lemma train_classifier_Inr:
  assumes "train_classifier ext m ld td cfg logs name = Inr (m', logs', out')"
  obtains l' out1 where
    "epoch_loop ext cfg ld td [0..<nat (NUM_EPOCHS cfg)]
       (m, \<lparr>best_acc = 0, best_f1 = 0, early_stop_counter = 0\<rparr>,
        if WANDB cfg
        then [Wandb_init (WANDB_PROJECT cfg) cfg [''train'', DATASET cfg, name]
                (DATASET cfg @ '' '' @ name), Wandb_watch]
        else []) = Inr (m', l', out1)"
    "logs' = logs(name @ ''_best_acc'' \<mapsto> best_acc l', name @ ''_best_f1'' \<mapsto> best_f1 l')"
  using assms unfolding train_classifier_def Let_def
  by (auto split: sum.splits)

text \<open>The keys that a run writes.\<close>

lemma best_keys_inject: "name @ ''_best_acc'' = name' @ ''_best_acc'' \<longleftrightarrow> name = name'"
  "name @ ''_best_f1'' = name' @ ''_best_f1'' \<longleftrightarrow> name = name'"
  by simp_all

lemma train_classifier_logs:
  assumes "train_classifier ext m ld td cfg logs name = Inr (m', logs', out')"
  shows "\<exists>b g. logs' = logs(name @ ''_best_acc'' \<mapsto> b, name @ ''_best_f1'' \<mapsto> g)"
proof -
  from assms obtain l' out1 where
    "epoch_loop ext cfg ld td [0..<nat (NUM_EPOCHS cfg)]
       (m, \<lparr>best_acc = 0, best_f1 = 0, early_stop_counter = 0\<rparr>,
        if WANDB cfg
        then [Wandb_init (WANDB_PROJECT cfg) cfg [''train'', DATASET cfg, name]
                (DATASET cfg @ '' '' @ name), Wandb_watch]
        else []) = Inr (m', l', out1)"
    and eq: "logs' = logs(name @ ''_best_acc'' \<mapsto> best_acc l',
                          name @ ''_best_f1'' \<mapsto> best_f1 l')"
    by (rule train_classifier_Inr)
  then show ?thesis by blast
qed

text \<open>The best values of the loop are those of the first largest accuracy.\<close>

lemma first_maximum_improve:
  assumes "first_maximum a f i b g" and "b < a i"
  shows "first_maximum a f (Suc i) (a i) (f i)"
proof -
  have below: "\<forall>k<i. a k < a i" and pos: "0 < a i"
    using assms unfolding first_maximum_def by (auto intro: le_less_trans)
  then have "i < Suc i \<and> 0 < a i \<and> (\<forall>k<i. a k < a i) \<and> (\<forall>k<Suc i. a k \<le> a i)"
    by (auto simp: less_Suc_eq intro: less_imp_le)
  then show ?thesis unfolding first_maximum_def by blast
qed

lemma first_maximum_stall:
  assumes "first_maximum a f i b g" and "a i \<le> b"
  shows "first_maximum a f (Suc i) b g"
  using assms unfolding first_maximum_def
  by (auto simp: less_Suc_eq)

lemma epoch_loop_Cons_Inr:
  assumes "epoch_loop ext cfg ld td (i # rest) (mi, l, out) = Inr r"
  shows "\<exists>m2 train_loss train_acc test_acc test_f1.
           run_epoch ext mi (ld i) td = Inr (m2, train_loss, train_acc, test_acc, test_f1)"
  using assms by (auto simp: run_epoch_def split: sum.splits prod.splits)

lemma observes_Suc:
  assumes "observes ext ld td m i a f"
    and "epoch_at ext ld td m i = Inr (m2, train_loss, train_acc, a i, f i)"
  shows "observes ext ld td m (Suc i) a f"
  using assms unfolding observes_def by (auto simp: less_Suc_eq)

lemma epoch_loop_first_maximum:
  assumes vals: "\<forall>i m2 tl ta acc f1.
      epoch_at ext ld td m i = Inr (m2, tl, ta, acc, f1) \<longrightarrow> a i = acc \<and> f i = f1"
  shows "model_after ext ld td m i = Inr mi \<Longrightarrow> observes ext ld td m i a f \<Longrightarrow>
         first_maximum a f i (best_acc l) (best_f1 l) \<Longrightarrow> i \<le> n \<Longrightarrow>
         epoch_loop ext cfg ld td [i..<n] (mi, l, out) = Inr (m', l', out') \<Longrightarrow>
         \<exists>E. E \<le> n \<and> observes ext ld td m E a f \<and> model_after ext ld td m E = Inr m' \<and>
             first_maximum a f E (best_acc l') (best_f1 l')"
proof (induction "n - i" arbitrary: i mi l out)
  case 0
  then have "i = n" by simp
  with 0 show ?case by auto
next
  case (Suc d)
  then have lt: "i < n" by simp
  then have cons: "[i..<n] = i # [Suc i..<n]" by (simp add: upt_conv_Cons)
  from Suc.prems(5) obtain m2 train_loss train_acc test_acc test_f1 where
    re: "run_epoch ext mi (ld i) td = Inr (m2, train_loss, train_acc, test_acc, test_f1)"
    unfolding cons by (blast dest: epoch_loop_Cons_Inr)
  with Suc.prems(1) have ea: "epoch_at ext ld td m i = Inr (m2, train_loss, train_acc, test_acc, test_f1)"
    by (simp add: epoch_at_def)
  from vals ea have v: "a i = test_acc" "f i = test_f1" by blast+
  from ea have ms: "model_after ext ld td m (Suc i) = Inr m2"
    by (rule epoch_at_model_after(2))
  have obs: "observes ext ld td m (Suc i) a f"
    using Suc.prems(2) ea v by (auto intro: observes_Suc)
  let ?out1 = "if WANDB cfg then out @ [Wandb_log train_loss train_acc test_acc test_f1] else out"
  note step = epoch_loop_step[OF Suc.prems(1) ea, of cfg "[Suc i..<n]" l out]
  have d: "d = n - Suc i" using Suc.hyps(2) by simp
  have le: "Suc i \<le> n" using lt by simp
  show ?case
  proof (cases "test_acc > best_acc l")
    case True
    let ?l1 = "l\<lparr>best_acc := test_acc, best_f1 := test_f1, early_stop_counter := 0\<rparr>"
    have run: "epoch_loop ext cfg ld td [Suc i..<n] (m2, ?l1, ?out1) = Inr (m', l', out')"
      using Suc.prems(5) True unfolding cons step by (simp add: Let_def)
    have fm: "first_maximum a f (Suc i) (best_acc ?l1) (best_f1 ?l1)"
      using first_maximum_improve[OF Suc.prems(3)] True v by simp
    from Suc.hyps(1)[OF d ms obs fm le run] show ?thesis .
  next
    case False
    let ?l1 = "l\<lparr>early_stop_counter := early_stop_counter l + 1\<rparr>"
    have fm: "first_maximum a f (Suc i) (best_acc ?l1) (best_f1 ?l1)"
      using first_maximum_stall[OF Suc.prems(3)] False v by simp
    show ?thesis
    proof (cases "early_stop_counter l + 1 \<ge> EARLY_STOP_PATIENCE cfg")
      case True
      then have "m' = m2" "l' = ?l1"
        using Suc.prems(5) False unfolding cons step by (simp_all add: Let_def)
      with ms obs fm le show ?thesis by blast
    next
      case nb: False
      have run: "epoch_loop ext cfg ld td [Suc i..<n] (m2, ?l1, ?out1) = Inr (m', l', out')"
        using Suc.prems(5) False nb unfolding cons step by (simp add: Let_def)
      from Suc.hyps(1)[OF d ms obs fm le run] show ?thesis .
    qed
  qed
qed


section \<open>The runs of the scripted network\<close>

lemmas eval_defs = train_epoch_def validate_def forward_def criterion_def argmax_matches_def
  argmax_def tensor_eq_def count_true_def unsqueeze1_def to_default_device_def
  scripted_def threshold_script_def one_batch_def ten_examples_def weighted_f1_def class_f1_def
  run_epoch_def

lemma scripted_run_epoch:
  assumes "h (Suc p) \<le> 10"
  shows "run_epoch (scripted (threshold_script h)) \<lparr>params = p, optim = (), training = t\<rparr>
           (one_batch e) ten_examples =
         Inr (after_steps (Suc p), Finite ((bce_with_logits 1 1 + bce_with_logits 0 0) / 2), 1,
              acc_of h p, f1_of h p)"
proof -
  from assms consider "h (Suc p) = 0" | "h (Suc p) = 1" | "h (Suc p) = 2" | "h (Suc p) = 3"
    | "h (Suc p) = 4" | "h (Suc p) = 5" | "h (Suc p) = 6" | "h (Suc p) = 7" | "h (Suc p) = 8"
    | "h (Suc p) = 9" | "h (Suc p) = 10"
    by atomize_elim arith
  then show ?thesis
    by cases (simp_all add: eval_defs acc_of_def f1_of_def after_steps_def)
qed

lemma scripted_model_after:
  assumes "\<forall>p. h p \<le> 10"
  shows "model_after (scripted (threshold_script h)) one_batch ten_examples fresh n =
         Inr (after_steps n)"
proof (induction n)
  case 0
  show ?case by (simp add: fresh_def after_steps_def)
next
  case (Suc n)
  have "h (Suc n) \<le> 10" using assms by simp
  from scripted_run_epoch[of h n False n] this Suc show ?case
    by (simp add: after_steps_def)
qed

lemma scripted_epoch_at:
  assumes "\<forall>p. h p \<le> 10"
  shows "epoch_at (scripted (threshold_script h)) one_batch ten_examples fresh n =
         Inr (after_steps (Suc n), Finite ((bce_with_logits 1 1 + bce_with_logits 0 0) / 2), 1,
              acc_of h n, f1_of h n)"
proof -
  have "h (Suc n) \<le> 10" using assms by simp
  from scripted_run_epoch[of h n False n] this show ?thesis
    by (simp add: epoch_at_def scripted_model_after[OF assms] after_steps_def)
qed

lemma scripted_observes:
  assumes "\<forall>p. h p \<le> 10"
  shows "observes (scripted (threshold_script h)) one_batch ten_examples fresh n
           (acc_of h) (f1_of h)"
  by (simp add: observes_def scripted_epoch_at[OF assms])

lemma scripted_loop_step:
  assumes "\<forall>p. h p \<le> 10"
  shows "epoch_loop (scripted (threshold_script h)) cfg one_batch ten_examples (i # rest)
           (after_steps i, l, out) =
     (let out1 = (if WANDB cfg
                  then out @ [Wandb_log (Finite ((bce_with_logits 1 1 + bce_with_logits 0 0) / 2))
                                1 (acc_of h i) (f1_of h i)]
                  else out)
      in if acc_of h i > best_acc l
         then epoch_loop (scripted (threshold_script h)) cfg one_batch ten_examples rest
                (after_steps (Suc i),
                 l\<lparr>best_acc := acc_of h i, best_f1 := f1_of h i, early_stop_counter := 0\<rparr>, out1)
         else (let c = early_stop_counter l + 1
               in if c \<ge> EARLY_STOP_PATIENCE cfg
                  then Inr (after_steps (Suc i), l\<lparr>early_stop_counter := c\<rparr>,
                            out1 @ [Print_early_stop i])
                  else epoch_loop (scripted (threshold_script h)) cfg one_batch ten_examples rest
                         (after_steps (Suc i), l\<lparr>early_stop_counter := c\<rparr>, out1)))"
  by (rule epoch_loop_step[OF scripted_model_after[OF assms] scripted_epoch_at[OF assms]])

lemma hits_765_le: "\<forall>p. hits_765 p \<le> 10"
  by (simp add: hits_765_def)

lemma hits_none_le: "\<forall>p. hits_none p \<le> 10"
  by (simp add: hits_none_def)

lemma fresh_after_steps: "fresh = after_steps 0"
  by (simp add: fresh_def after_steps_def)

lemma hits_0544_le: "\<forall>p. hits_0544 p \<le> 10"
  by (simp add: hits_0544_def)

lemma hits_5765_le: "\<forall>p. hits_5765 p \<le> 10"
  by (simp add: hits_5765_def)

lemma hits_8889_le: "\<forall>p. hits_8889 p \<le> 10"
  by (simp add: hits_8889_def)

text \<open>Two epochs of the scripted network on \<open>four_examples\<close>.\<close>

lemma four_examples_epoch_0:
  "epoch_at (scripted (threshold_script hits_42)) one_batch four_examples fresh 0 =
   Inr (after_steps (Suc 0), Finite ((bce_with_logits 1 1 + bce_with_logits 0 0) / 2), 1, 3 / 4, 9 / 14)"
  by (simp add: epoch_at_def train_epoch_def validate_def forward_def criterion_def
      argmax_matches_def argmax_def tensor_eq_def count_true_def unsqueeze1_def
      to_default_device_def scripted_def threshold_script_def one_batch_def weighted_f1_def
      class_f1_def run_epoch_def four_examples_def hits_42_def fresh_def after_steps_def)

lemma four_examples_epoch_1:
  "epoch_at (scripted (threshold_script hits_42)) one_batch four_examples fresh (Suc 0) =
   Inr (after_steps 2, Finite ((bce_with_logits 1 1 + bce_with_logits 0 0) / 2), 1, 3 / 4, 23 / 30)"
  unfolding epoch_at_def epoch_at_model_after(2)[OF four_examples_epoch_0]
  by (simp add: train_epoch_def validate_def forward_def criterion_def
      argmax_matches_def argmax_def tensor_eq_def count_true_def unsqueeze1_def
      to_default_device_def scripted_def threshold_script_def one_batch_def weighted_f1_def
      class_f1_def run_epoch_def four_examples_def hits_42_def after_steps_def)

lemma four_examples_run:
  "train_classifier (scripted (threshold_script hits_42)) fresh one_batch four_examples
     (run_config 2 3) Map.empty ''classifier'' =
   Inr (after_steps 2,
        [''classifier_best_acc'' \<mapsto> 3 / 4, ''classifier_best_f1'' \<mapsto> 9 / 14],
        [Print_best_acc (3 / 4)])"
proof -
  have ma0: "model_after (scripted (threshold_script hits_42)) one_batch four_examples fresh 0 =
             Inr fresh"
    by simp
  note ma1 = epoch_at_model_after(2)[OF four_examples_epoch_0]
  show ?thesis
    unfolding train_classifier_def
    by (simp add: run_config_def upt_rec epoch_loop_step[OF ma0 four_examples_epoch_0]
        epoch_loop_step[OF ma1 four_examples_epoch_1] del: epoch_loop.simps(2))
qed

lemma scripted_get_model_path:
  "get_model_path (scripted script) cfg name = DATASET cfg @ ''_'' @ name @ ''.pth''"
  by (simp add: scripted_def)

lemma four_examples_tracked_run:
  "train_classifier (scripted (threshold_script hits_42)) fresh one_batch four_examples
     (tracked_config 2 3) logs name =
   Inr (after_steps 2,
        logs(name @ ''_best_acc'' \<mapsto> 3 / 4, name @ ''_best_f1'' \<mapsto> 9 / 14),
        [Wandb_init ''ascension'' (tracked_config 2 3) [''train'', ''ECG200'', name]
           (''ECG200 '' @ name),
         Wandb_watch,
         Wandb_log (Finite ((bce_with_logits 1 1 + bce_with_logits 0 0) / 2)) 1 (3 / 4) (9 / 14),
         Wandb_log (Finite ((bce_with_logits 1 1 + bce_with_logits 0 0) / 2)) 1 (3 / 4) (23 / 30),
         Print_best_acc (3 / 4),
         Wandb_finish,
         Torch_save (''ECG200_'' @ name @ ''.pth''),
         Print_saved (''ECG200_'' @ name @ ''.pth'')])"
proof -
  have ma0: "model_after (scripted (threshold_script hits_42)) one_batch four_examples fresh 0 =
             Inr fresh"
    by simp
  note ma1 = epoch_at_model_after(2)[OF four_examples_epoch_0]
  show ?thesis
    unfolding train_classifier_def
    by (simp add: tracked_config_def upt_rec epoch_loop_step[OF ma0 four_examples_epoch_0]
        epoch_loop_step[OF ma1 four_examples_epoch_1] scripted_get_model_path Let_def
        del: epoch_loop.simps(2))
qed

lemma four_examples_validate:
  "validate (scripted (threshold_script hits_42)) \<lparr>params = 1, optim = (), training = t\<rparr>
     four_examples = Inr (after_steps 1, 3 / 4, 9 / 14)"
  by (simp add: validate_def forward_def argmax_matches_def argmax_def tensor_eq_def
      count_true_def unsqueeze1_def to_default_device_def scripted_def threshold_script_def
      weighted_f1_def class_f1_def four_examples_def hits_42_def after_steps_def)

lemma no_examples_validate:
  "validate (scripted (threshold_script hits_42)) \<lparr>params = 1, optim = (), training = t\<rparr>
     ([], []) = Inl ZeroDivisionError"
  by (simp add: validate_def forward_def argmax_matches_def tensor_eq_def
      count_true_def unsqueeze1_def to_default_device_def scripted_def)

text \<open>The loss of one element at logit 0 is \<open>ln 2\<close>, whatever the target.\<close>

lemma bce_at_zero: "bce_with_logits 0 1 = ln 2" "bce_with_logits 0 0 = ln 2"
  by (simp_all add: bce_with_logits_def sigmoid_def ln_div)

section \<open>Properties of \<^verbatim>\<open>train_epoch\<close>\<close>

text \<open>
  C9. Called on an iterable that yields no batch, \<^verbatim>\<open>train_epoch\<close> does not return: the
  example count is still 0 when the mean loss is computed and the division raises
  \<^verbatim>\<open>ZeroDivisionError\<close>; nothing guards the empty case.
\<close>

theorem train_epoch_empty_loader:
  "train_epoch ext m [] = Inl ZeroDivisionError"
  by (simp add: train_epoch_def)

text \<open>
  For a single batch the first value of \<^verbatim>\<open>train_epoch\<close> is the mean loss of the batch,
  divided once more by the number of its examples.
\<close>

lemma train_epoch_single_batch:
  assumes "forward ext (m\<lparr>training := True\<rparr>) (unsqueeze1 X) = Inr (output, m1)"
    and "criterion output y = Inr (Finite c)"
    and "argmax_matches output y = Inr k"
    and "y \<noteq> []"
  shows "\<exists>m'. train_epoch ext m [(X, y)] =
           Inr (m', Finite (c / real (length y)), real k / real (length y))"
proof -
  obtain n where n: "length y = Suc n" using assms(4) by (cases y) auto
  show ?thesis
    using assms(1-3)
    by (simp add: train_epoch_def to_default_device_def Let_def n split: prod.splits)
qed

text \<open>
  C2, evaluated where the code leaves the claim. The same two examples (logits 0 and 0,
  target class 0, so a loss of \<open>ln 2\<close> each and on average) are given to a frozen
  network once as one batch of two and once as two batches of one. \<^verbatim>\<open>loss.item()\<close> is
  already the mean over the batch, and \<^verbatim>\<open>train_epoch\<close> divides the sum of these means
  by the number of examples: it returns \<open>ln 2 / 2\<close> for the one batch and \<open>ln 2\<close> for
  the two, so its first value is not the mean loss per example and depends on the
  batching. The accuracy is 1 both times.
\<close>

theorem train_epoch_loss_depends_on_batching:
  "train_epoch frozen (frozen_model False) [([[0], [0]], [[1, 0], [1, 0]])] =
     Inr (frozen_model True, Finite (ln 2 / 2), 1) \<and>
   train_epoch frozen (frozen_model False) [([[0]], [[1, 0]]), ([[0]], [[1, 0]])] =
     Inr (frozen_model True, Finite (ln 2), 1) \<and>
   criterion [[0, 0]] [[1, 0]] = Inr (Finite (ln 2)) \<and>
   ln 2 / 2 \<noteq> (ln 2 :: real)"
  by (simp add: train_epoch_def forward_def criterion_def argmax_matches_def argmax_def
      tensor_eq_def count_true_def unsqueeze1_def to_default_device_def frozen_def
      frozen_model_def bce_at_zero)

section \<open>Early stopping in \<^verbatim>\<open>train_classifier\<close>\<close>

text \<open>
  C1, as amended. Let the validation accuracies of a run rise strictly up to epoch \<open>k\<close>
  (epochs are counted from 0) and never rise from one epoch to the next in the \<open>P\<close>
  epochs after it, with a patience \<open>P\<close> of at least 1 and more than \<open>k + P\<close> epochs
  allowed; and let the first accuracy be above 0, or else \<open>k\<close> be at least 1 and \<open>P\<close> at
  least 2 (an accuracy is never below 0, so the first one is then 0: its epoch is no
  improvement on the initial best, and the patience must outlast it). Then
  \<^verbatim>\<open>train_classifier\<close> leaves its loop through the early stop in epoch \<open>k + P\<close>: the
  notice names that epoch, the model returned is the one that \<open>k + P + 1\<close> epochs leave
  behind, and the logs hold the accuracy and the f1 of epoch \<open>k\<close>.
\<close>

theorem early_stop_at_k_plus_patience:
  assumes obs: "observes ext ld td m (Suc (k + nat P)) a f"
    and pat: "EARLY_STOP_PATIENCE cfg = P"
    and P: "1 \<le> P"
    and N: "int k + P < NUM_EPOCHS cfg"
    and first: "0 < a 0 \<or> (1 \<le> k \<and> 2 \<le> P)"
    and up: "\<forall>i<k. a i < a (Suc i)"
    and down: "\<forall>i. k \<le> i \<and> i < k + nat P \<longrightarrow> a (Suc i) \<le> a i"
  shows "\<exists>m' out'. train_classifier ext m ld td cfg logs name =
           Inr (m', logs(name @ ''_best_acc'' \<mapsto> a k, name @ ''_best_f1'' \<mapsto> f k), out') \<and>
         model_after ext ld td m (Suc (k + nat P)) = Inr m' \<and>
         early_stop_notices out' = [k + nat P]"
proof (cases "0 < a 0")
  case True
  show ?thesis
  proof (rule train_classifier_early_stop[OF obs _ _ _ True up down])
    show "EARLY_STOP_PATIENCE cfg = int (nat P)" using pat P by simp
    show "0 < nat P" using P by simp
    show "int (Suc (k + nat P)) \<le> NUM_EPOCHS cfg" using N P by simp
  qed
next
  case False
  with first have k: "1 \<le> k" and P2: "2 \<le> P" by simp_all
  have "0 \<le> a 0" using obs by (rule observes_nonneg) simp
  with False have zero: "a 0 = 0" by simp
  show ?thesis
  proof (rule train_classifier_early_stop_after_zero[OF obs _ _ _ zero k up down])
    show "EARLY_STOP_PATIENCE cfg = int (nat P)" using pat P by simp
    show "2 \<le> nat P" using P2 by simp
    show "int (Suc (k + nat P)) \<le> NUM_EPOCHS cfg" using N P by simp
  qed
qed

text \<open>
  C1, two runs the theorem applies to, both with patience 2, six epochs allowed and
  \<open>k = 1\<close>: the accuracies 0.5, 0.7, 0.6, 0.5, which start above 0, and the accuracies
  0, 0.5, 0.4, 0.4, which start at 0. Both runs stop in epoch 3, with the best accuracy
  0.7 and 0.5.
\<close>

theorem early_stop_at_k_plus_patience_witness:
  "observes (scripted (threshold_script hits_5765)) one_batch ten_examples fresh 4
     (acc_of hits_5765) (f1_of hits_5765) \<and>
   (\<exists>m' out'. train_classifier (scripted (threshold_script hits_5765)) fresh one_batch ten_examples
       (run_config 6 2) Map.empty ''classifier'' =
       Inr (m', [''classifier_best_acc'' \<mapsto> 0.7, ''classifier_best_f1'' \<mapsto> 14 / 17], out') \<and>
     model_after (scripted (threshold_script hits_5765)) one_batch ten_examples fresh 4 = Inr m' \<and>
     early_stop_notices out' = [3]) \<and>
   observes (scripted (threshold_script hits_0544)) one_batch ten_examples fresh 4
     (acc_of hits_0544) (f1_of hits_0544) \<and>
   acc_of hits_0544 0 = 0 \<and>
   (\<exists>m' out'. train_classifier (scripted (threshold_script hits_0544)) fresh one_batch ten_examples
       (run_config 6 2) Map.empty ''classifier'' =
       Inr (m', [''classifier_best_acc'' \<mapsto> 0.5, ''classifier_best_f1'' \<mapsto> 2 / 3], out') \<and>
     model_after (scripted (threshold_script hits_0544)) one_batch ten_examples fresh 4 = Inr m' \<and>
     early_stop_notices out' = [3])"
proof -
  have c: "EARLY_STOP_PATIENCE (run_config 6 2) = 2" "(1::int) \<le> 2"
    "int 1 + 2 < NUM_EPOCHS (run_config 6 2)"
    by (simp_all add: run_config_def)
  have idx: "Suc (1 + nat 2) = 4" "1 + nat 2 = (3::nat)" by simp_all
  have obs: "observes (scripted (threshold_script hits_5765)) one_batch ten_examples fresh
               (Suc (1 + nat 2)) (acc_of hits_5765) (f1_of hits_5765)"
    by (rule scripted_observes[OF hits_5765_le])
  have first: "0 < acc_of hits_5765 0 \<or> ((1::nat) \<le> 1 \<and> (2::int) \<le> 2)"
    by (simp add: acc_of_def hits_5765_def)
  have up: "\<forall>i<1. acc_of hits_5765 i < acc_of hits_5765 (Suc i)"
    by (simp add: acc_of_def hits_5765_def)
  have down: "\<forall>i. 1 \<le> i \<and> i < 1 + nat 2 \<longrightarrow> acc_of hits_5765 (Suc i) \<le> acc_of hits_5765 i"
    by (simp add: acc_of_def hits_5765_def)
  have vals: "acc_of hits_5765 1 = 0.7" "f1_of hits_5765 1 = 14 / 17"
    by (simp_all add: acc_of_def f1_of_def hits_5765_def)
  note inst = early_stop_at_k_plus_patience[OF obs c first up down, of Map.empty "''classifier''"]
  have a: "\<exists>m' out'. train_classifier (scripted (threshold_script hits_5765)) fresh one_batch
       ten_examples (run_config 6 2) Map.empty ''classifier'' =
       Inr (m', [''classifier_best_acc'' \<mapsto> 0.7, ''classifier_best_f1'' \<mapsto> 14 / 17], out') \<and>
     model_after (scripted (threshold_script hits_5765)) one_batch ten_examples fresh 4 = Inr m' \<and>
     early_stop_notices out' = [3]"
    using inst[unfolded idx vals] by (simp del: model_after.simps)
  have obs0: "observes (scripted (threshold_script hits_0544)) one_batch ten_examples fresh
               (Suc (1 + nat 2)) (acc_of hits_0544) (f1_of hits_0544)"
    by (rule scripted_observes[OF hits_0544_le])
  have first0: "0 < acc_of hits_0544 0 \<or> ((1::nat) \<le> 1 \<and> (2::int) \<le> 2)"
    by simp
  have up0: "\<forall>i<1. acc_of hits_0544 i < acc_of hits_0544 (Suc i)"
    by (simp add: acc_of_def hits_0544_def)
  have down0: "\<forall>i. 1 \<le> i \<and> i < 1 + nat 2 \<longrightarrow> acc_of hits_0544 (Suc i) \<le> acc_of hits_0544 i"
    by (simp add: acc_of_def hits_0544_def)
  have vals0: "acc_of hits_0544 1 = 0.5" "f1_of hits_0544 1 = 2 / 3"
    by (simp_all add: acc_of_def f1_of_def hits_0544_def)
  have z: "acc_of hits_0544 0 = 0" by (simp add: acc_of_def hits_0544_def)
  note inst0 = early_stop_at_k_plus_patience[OF obs0 c first0 up0 down0,
      of Map.empty "''classifier''"]
  have b: "\<exists>m' out'. train_classifier (scripted (threshold_script hits_0544)) fresh one_batch
       ten_examples (run_config 6 2) Map.empty ''classifier'' =
       Inr (m', [''classifier_best_acc'' \<mapsto> 0.5, ''classifier_best_f1'' \<mapsto> 2 / 3], out') \<and>
     model_after (scripted (threshold_script hits_0544)) one_batch ten_examples fresh 4 = Inr m' \<and>
     early_stop_notices out' = [3]"
    using inst0[unfolded idx vals0] by (simp del: model_after.simps)
  from scripted_observes[OF hits_5765_le, of 4] a scripted_observes[OF hits_0544_le, of 4] z b
  show ?thesis by (intro conjI)
qed

text \<open>
  C1 as stated fails in three ways. With patience 0 and the accuracies 0.7, 0.6, 0.5, 0.5,
  0.5 (\<open>k = 0\<close>) the claim has the loop stop in epoch 0; the counter is only compared
  after an epoch without improvement, so the run stops in epoch 1. With every accuracy 0
  and patience 2 (\<open>k = 0\<close> again) the claim has the loop stop in epoch 2; an accuracy of 0
  is no improvement on the initial best of 0, so the stall starts in epoch 0 and the run
  stops in epoch 1. With the accuracies 0, 0.5, 0.4, 0.4, 0.4 and patience 1 (\<open>k = 1\<close>)
  the claim has the loop stop in epoch 2 with the best accuracy 0.5; the first epoch
  already uses up the patience, and the run stops in epoch 0 with the best accuracy 0.
\<close>

theorem early_stop_epoch_counterexample:
  "observes (scripted (threshold_script hits_765)) one_batch ten_examples fresh 5
     (acc_of hits_765) (f1_of hits_765) \<and>
   acc_of hits_765 1 \<le> acc_of hits_765 0 \<and> acc_of hits_765 2 \<le> acc_of hits_765 1 \<and>
   acc_of hits_765 3 \<le> acc_of hits_765 2 \<and> acc_of hits_765 4 \<le> acc_of hits_765 3 \<and>
   train_classifier (scripted (threshold_script hits_765)) fresh one_batch ten_examples
       (run_config 5 0) Map.empty ''classifier'' =
     Inr (after_steps 2,
          [''classifier_best_acc'' \<mapsto> 0.7, ''classifier_best_f1'' \<mapsto> 14 / 17],
          [Print_early_stop 1, Print_best_acc 0.7]) \<and>
   observes (scripted (threshold_script hits_none)) one_batch ten_examples fresh 5
     (acc_of hits_none) (f1_of hits_none) \<and>
   acc_of hits_none 0 = 0 \<and> acc_of hits_none 1 = 0 \<and> acc_of hits_none 2 = 0 \<and>
   train_classifier (scripted (threshold_script hits_none)) fresh one_batch ten_examples
       (run_config 5 2) Map.empty ''classifier'' =
     Inr (after_steps 2,
          [''classifier_best_acc'' \<mapsto> 0, ''classifier_best_f1'' \<mapsto> 0],
          [Print_early_stop 1, Print_best_acc 0]) \<and>
   observes (scripted (threshold_script hits_0544)) one_batch ten_examples fresh 5
     (acc_of hits_0544) (f1_of hits_0544) \<and>
   acc_of hits_0544 0 < acc_of hits_0544 1 \<and> acc_of hits_0544 2 \<le> acc_of hits_0544 1 \<and>
   acc_of hits_0544 3 \<le> acc_of hits_0544 2 \<and> acc_of hits_0544 1 = 0.5 \<and>
   train_classifier (scripted (threshold_script hits_0544)) fresh one_batch ten_examples
       (run_config 5 1) Map.empty ''classifier'' =
     Inr (after_steps 1,
          [''classifier_best_acc'' \<mapsto> 0, ''classifier_best_f1'' \<mapsto> 0],
          [Print_early_stop 0, Print_best_acc 0])"
proof -
  have two: "Suc (Suc 0) = 2" by simp
  have a: "train_classifier (scripted (threshold_script hits_765)) fresh one_batch ten_examples
       (run_config 5 0) Map.empty ''classifier'' =
     Inr (after_steps 2,
          [''classifier_best_acc'' \<mapsto> 0.7, ''classifier_best_f1'' \<mapsto> 14 / 17],
          [Print_early_stop 1, Print_best_acc 0.7])"
    unfolding train_classifier_def
    by (simp add: run_config_def scripted_loop_step[OF hits_765_le] fresh_after_steps upt_rec
        acc_of_def f1_of_def hits_765_def two del: epoch_loop.simps(2))
  have b: "train_classifier (scripted (threshold_script hits_none)) fresh one_batch ten_examples
       (run_config 5 2) Map.empty ''classifier'' =
     Inr (after_steps 2,
          [''classifier_best_acc'' \<mapsto> 0, ''classifier_best_f1'' \<mapsto> 0],
          [Print_early_stop 1, Print_best_acc 0])"
    unfolding train_classifier_def
    by (simp add: run_config_def scripted_loop_step[OF hits_none_le] fresh_after_steps upt_rec
        acc_of_def f1_of_def hits_none_def two del: epoch_loop.simps(2))
  have c: "train_classifier (scripted (threshold_script hits_0544)) fresh one_batch ten_examples
       (run_config 5 1) Map.empty ''classifier'' =
     Inr (after_steps 1,
          [''classifier_best_acc'' \<mapsto> 0, ''classifier_best_f1'' \<mapsto> 0],
          [Print_early_stop 0, Print_best_acc 0])"
    unfolding train_classifier_def
    by (simp add: run_config_def scripted_loop_step[OF hits_0544_le] fresh_after_steps upt_rec
        acc_of_def f1_of_def hits_0544_def del: epoch_loop.simps(2))
  have v: "acc_of hits_765 1 \<le> acc_of hits_765 0" "acc_of hits_765 2 \<le> acc_of hits_765 1"
    "acc_of hits_765 3 \<le> acc_of hits_765 2" "acc_of hits_765 4 \<le> acc_of hits_765 3"
    "acc_of hits_none 0 = 0" "acc_of hits_none 1 = 0" "acc_of hits_none 2 = 0"
    "acc_of hits_0544 0 < acc_of hits_0544 1" "acc_of hits_0544 2 \<le> acc_of hits_0544 1"
    "acc_of hits_0544 3 \<le> acc_of hits_0544 2" "acc_of hits_0544 1 = 0.5"
    by (simp_all add: acc_of_def hits_765_def hits_none_def hits_0544_def)
  from scripted_observes[OF hits_765_le, of 5] v(1-4) a
    scripted_observes[OF hits_none_le, of 5] v(5-7) b
    scripted_observes[OF hits_0544_le, of 5] v(8-11) c
  show ?thesis by (intro conjI)
qed

text \<open>
  C3, as amended. When the validation accuracies of the first three epochs are 0.7, 0.6
  and 0.5, with a patience of 2 and at least 3 epochs allowed (so with 5 as well), early
  stopping triggers in the third epoch, which is epoch 2 counted from 0: the two epochs
  after the best one use up the patience. The best accuracy recorded is 0.7, with the f1
  of epoch 0, and the fourth and fifth epochs are not run.
\<close>

theorem early_stop_scenario:
  assumes obs: "observes ext ld td m 3 a f"
    and a: "a 0 = 0.7" "a 1 = 0.6" "a 2 = 0.5"
    and pat: "EARLY_STOP_PATIENCE cfg = 2"
    and N: "3 \<le> NUM_EPOCHS cfg"
  shows "\<exists>m' out'. train_classifier ext m ld td cfg logs name =
           Inr (m', logs(name @ ''_best_acc'' \<mapsto> 0.7, name @ ''_best_f1'' \<mapsto> f 0), out') \<and>
         model_after ext ld td m 3 = Inr m' \<and>
         early_stop_notices out' = [2]"
proof -
  have e: "Suc (0 + 2) = 3" "0 + 2 = (2::nat)" "Suc 2 = 3" by simp_all
  have "\<exists>m' out'. train_classifier ext m ld td cfg logs name =
           Inr (m', logs(name @ ''_best_acc'' \<mapsto> a 0, name @ ''_best_f1'' \<mapsto> f 0), out') \<and>
         model_after ext ld td m (Suc (0 + 2)) = Inr m' \<and>
         early_stop_notices out' = [0 + 2]"
  proof (rule train_classifier_early_stop)
    show "observes ext ld td m (Suc (0 + 2)) a f" using obs by (simp add: numeral_3_eq_3)
    show "EARLY_STOP_PATIENCE cfg = int 2" using pat by simp
    show "0 < (2::nat)" by simp
    show "int (Suc (0 + 2)) \<le> NUM_EPOCHS cfg" using N by simp
    show "0 < a 0" using a by simp
    show "\<forall>i<0. a i < a (Suc i)" by simp
    show "\<forall>i. 0 \<le> i \<and> i < 0 + 2 \<longrightarrow> a (Suc i) \<le> a i"
    proof (intro allI impI)
      fix i :: nat assume "0 \<le> i \<and> i < 0 + 2"
      then have "i = 0 \<or> i = Suc 0" by arith
      moreover have "a (Suc 0) = 0.6" "a (Suc (Suc 0)) = 0.5"
        using a by (simp_all add: numeral_2_eq_2)
      ultimately show "a (Suc i) \<le> a i" using a(1) by auto
    qed
  qed
  then show ?thesis unfolding e a(1) .
qed

text \<open>
  C3, a run the theorem applies to: the scripted network with the accuracies 0.7, 0.6,
  0.5, 0.5, 0.5, patience 2 and 5 epochs allowed.
\<close>

theorem early_stop_scenario_witness:
  "observes (scripted (threshold_script hits_765)) one_batch ten_examples fresh 3
     (acc_of hits_765) (f1_of hits_765) \<and>
   (\<exists>m' out'. train_classifier (scripted (threshold_script hits_765)) fresh one_batch ten_examples
       (run_config 5 2) Map.empty ''classifier'' =
       Inr (m', [''classifier_best_acc'' \<mapsto> 0.7, ''classifier_best_f1'' \<mapsto> 14 / 17], out') \<and>
     model_after (scripted (threshold_script hits_765)) one_batch ten_examples fresh 3 = Inr m' \<and>
     early_stop_notices out' = [2])"
proof -
  have obs: "observes (scripted (threshold_script hits_765)) one_batch ten_examples fresh 3
               (acc_of hits_765) (f1_of hits_765)"
    by (rule scripted_observes[OF hits_765_le])
  have v: "acc_of hits_765 0 = 0.7" "acc_of hits_765 1 = 0.6" "acc_of hits_765 2 = 0.5"
    by (simp_all add: acc_of_def hits_765_def)
  have c: "EARLY_STOP_PATIENCE (run_config 5 2) = 2" "3 \<le> NUM_EPOCHS (run_config 5 2)"
    by (simp_all add: run_config_def)
  have f: "f1_of hits_765 0 = 14 / 17" by (simp add: f1_of_def hits_765_def)
  from early_stop_scenario[OF obs v c, of Map.empty "''classifier''"] obs
  show ?thesis unfolding f by (simp del: model_after.simps)
qed

text \<open>
  C3 as stated has the early stop trigger after epoch 4, which is epoch 3 counted from 0.
  On the accuracies 0.7, 0.6, 0.5, 0.5, 0.5 with patience 2 and 5 epochs allowed the
  notice names epoch 2 and the model returned has been trained for three epochs.
\<close>

theorem early_stop_scenario_counterexample:
  "observes (scripted (threshold_script hits_765)) one_batch ten_examples fresh 5
     (acc_of hits_765) (f1_of hits_765) \<and>
   acc_of hits_765 0 = 0.7 \<and> acc_of hits_765 1 = 0.6 \<and> acc_of hits_765 2 = 0.5 \<and>
   acc_of hits_765 3 = 0.5 \<and> acc_of hits_765 4 = 0.5 \<and>
   train_classifier (scripted (threshold_script hits_765)) fresh one_batch ten_examples
       (run_config 5 2) Map.empty ''classifier'' =
     Inr (after_steps 3,
          [''classifier_best_acc'' \<mapsto> 0.7, ''classifier_best_f1'' \<mapsto> 14 / 17],
          [Print_early_stop 2, Print_best_acc 0.7])"
proof -
  have n: "Suc (Suc 0) = 2" "Suc 2 = 3" by simp_all
  have run: "train_classifier (scripted (threshold_script hits_765)) fresh one_batch ten_examples
       (run_config 5 2) Map.empty ''classifier'' =
     Inr (after_steps 3,
          [''classifier_best_acc'' \<mapsto> 0.7, ''classifier_best_f1'' \<mapsto> 14 / 17],
          [Print_early_stop 2, Print_best_acc 0.7])"
    unfolding train_classifier_def
    by (simp add: run_config_def scripted_loop_step[OF hits_765_le] fresh_after_steps upt_rec
        acc_of_def f1_of_def hits_765_def n del: epoch_loop.simps(2))
  have v: "acc_of hits_765 0 = 0.7" "acc_of hits_765 1 = 0.6" "acc_of hits_765 2 = 0.5"
    "acc_of hits_765 3 = 0.5" "acc_of hits_765 4 = 0.5"
    by (simp_all add: acc_of_def hits_765_def)
  show ?thesis
    using run v scripted_observes[OF hits_765_le, of 5] by simp
qed

text \<open>
  C6. With \<^verbatim>\<open>NUM_EPOCHS\<close> = 4 and \<^verbatim>\<open>EARLY_STOP_PATIENCE\<close> = 3 and the validation
  accuracies 0.8, 0.8, 0.8, 0.9, the loop runs all four epochs, no early-stopping notice is
  printed, and the best accuracy recorded is 0.9, with the f1 of the fourth epoch.
\<close>

theorem four_epochs_no_early_stop:
  assumes obs: "observes ext ld td m 4 a f"
    and a: "a 0 = 0.8" "a 1 = 0.8" "a 2 = 0.8" "a 3 = 0.9"
    and N: "NUM_EPOCHS cfg = 4"
    and pat: "EARLY_STOP_PATIENCE cfg = 3"
  shows "\<exists>m' out'. train_classifier ext m ld td cfg logs name =
           Inr (m', logs(name @ ''_best_acc'' \<mapsto> 0.9, name @ ''_best_f1'' \<mapsto> f 3), out') \<and>
         model_after ext ld td m 4 = Inr m' \<and>
         early_stop_notices out' = []"
proof -
  let ?init = "\<lparr>best_acc = 0, best_f1 = 0, early_stop_counter = 0\<rparr>"
  let ?final = "\<lparr>best_acc = a 3, best_f1 = f 3, early_stop_counter = 0\<rparr>"
  have idx: "(1::nat) = Suc 0" "(2::nat) = Suc (Suc 0)" "(3::nat) = Suc (Suc (Suc 0))"
    "(4::nat) = Suc (Suc (Suc (Suc 0)))"
    by simp_all
  have epochs: "[0..<nat (NUM_EPOCHS cfg)] = [0, Suc 0, Suc (Suc 0), Suc (Suc (Suc 0))]"
    using N by (simp add: upt_rec)
  have ma0: "model_after ext ld td m 0 = Inr m" by simp
  from obs obtain m1 tl0 ta0 where
    e0: "epoch_at ext ld td m 0 = Inr (m1, tl0, ta0, a 0, f 0)"
    unfolding observes_def by force
  from obs obtain m2 tl1 ta1 where
    e1: "epoch_at ext ld td m (Suc 0) = Inr (m2, tl1, ta1, a 1, f 1)"
    unfolding observes_def by force
  from obs obtain m3 tl2 ta2 where
    e2: "epoch_at ext ld td m (Suc (Suc 0)) = Inr (m3, tl2, ta2, a 2, f 2)"
    unfolding observes_def idx(2)[symmetric] by force
  from obs obtain m4 tl3 ta3 where
    e3: "epoch_at ext ld td m (Suc (Suc (Suc 0))) = Inr (m4, tl3, ta3, a 3, f 3)"
    unfolding observes_def idx(3)[symmetric] by force
  note ma1 = epoch_at_model_after(2)[OF e0]
  note ma2 = epoch_at_model_after(2)[OF e1]
  note ma3 = epoch_at_model_after(2)[OF e2]
  note ma4 = epoch_at_model_after(2)[OF e3]
  have a1: "a (Suc 0) = 0.8" using a(2) by simp
  have loop: "\<exists>out'. epoch_loop ext cfg ld td [0..<nat (NUM_EPOCHS cfg)] (m, ?init, out) =
                  Inr (m4, ?final, out') \<and>
                early_stop_notices out' = early_stop_notices out @ []" for out
    unfolding epochs
    by (simp add: epoch_loop_step[OF ma0 e0] epoch_loop_step[OF ma1 e1]
        epoch_loop_step[OF ma2 e2] epoch_loop_step[OF ma3 e3] a a1 pat
        early_stop_notices_append del: epoch_loop.simps(2))
  from train_classifier_of_loop[of ext cfg ld td m m4 ?final "[]" logs name, OF loop] ma4
  show ?thesis unfolding idx(4)[symmetric] a(4) by (simp del: model_after.simps)
qed

text \<open>C6, such a run: the scripted network with the accuracies 0.8, 0.8, 0.8, 0.9.\<close>

theorem four_epochs_no_early_stop_witness:
  "observes (scripted (threshold_script hits_8889)) one_batch ten_examples fresh 4
     (acc_of hits_8889) (f1_of hits_8889) \<and>
   acc_of hits_8889 0 = 0.8 \<and> acc_of hits_8889 1 = 0.8 \<and> acc_of hits_8889 2 = 0.8 \<and>
   acc_of hits_8889 3 = 0.9 \<and>
   (\<exists>m' out'. train_classifier (scripted (threshold_script hits_8889)) fresh one_batch ten_examples
       (run_config 4 3) Map.empty ''classifier'' =
       Inr (m', [''classifier_best_acc'' \<mapsto> 0.9, ''classifier_best_f1'' \<mapsto> 18 / 19], out') \<and>
     model_after (scripted (threshold_script hits_8889)) one_batch ten_examples fresh 4 = Inr m' \<and>
     early_stop_notices out' = [])"
proof -
  have obs: "observes (scripted (threshold_script hits_8889)) one_batch ten_examples fresh 4
               (acc_of hits_8889) (f1_of hits_8889)"
    by (rule scripted_observes[OF hits_8889_le])
  have v: "acc_of hits_8889 0 = 0.8" "acc_of hits_8889 1 = 0.8" "acc_of hits_8889 2 = 0.8"
    "acc_of hits_8889 3 = 0.9"
    by (simp_all add: acc_of_def hits_8889_def)
  have c: "NUM_EPOCHS (run_config 4 3) = 4" "EARLY_STOP_PATIENCE (run_config 4 3) = 3"
    by (simp_all add: run_config_def)
  have f: "f1_of hits_8889 3 = 18 / 19" by (simp add: f1_of_def hits_8889_def)
  from four_epochs_no_early_stop[OF obs v c, of Map.empty "''classifier''"] obs v
  show ?thesis unfolding f by (simp del: model_after.simps)
qed

text \<open>
  C10, as amended. The best accuracy starts at 0 and the test for an improvement is
  strict. First: when the accuracy of every epoch is 0, the patience \<open>P\<close> is at least 1 and
  at least \<open>P\<close> epochs are allowed, the loop stops early after exactly \<open>P\<close> epochs (the
  notice names epoch \<open>P - 1\<close>) and the logs record 0 for the best accuracy and for the
  best f1. Second: with no epoch allowed the logs record 0 and 0 and the model is returned
  as it came. Third: in any state of the loop whose best accuracy is not below 0 (it
  starts at 0 and is only ever replaced by something larger), an epoch with accuracy 0
  leaves the best values alone and raises the stall counter by one.
\<close>

theorem zero_accuracy_runs:
  "(observes ext ld td m (nat P) a f \<and> (\<forall>i<nat P. a i = 0) \<and>
    EARLY_STOP_PATIENCE cfg = P \<and> 1 \<le> P \<and> P \<le> NUM_EPOCHS cfg \<longrightarrow>
      (\<exists>m' out'. train_classifier ext m ld td cfg logs name =
           Inr (m', logs(name @ ''_best_acc'' \<mapsto> 0, name @ ''_best_f1'' \<mapsto> 0), out') \<and>
         model_after ext ld td m (nat P) = Inr m' \<and>
         early_stop_notices out' = [nat P - 1])) \<and>
   (NUM_EPOCHS cfg \<le> 0 \<longrightarrow>
      (\<exists>out'. train_classifier ext m ld td cfg logs name =
           Inr (m, logs(name @ ''_best_acc'' \<mapsto> 0, name @ ''_best_f1'' \<mapsto> 0), out') \<and>
         early_stop_notices out' = [])) \<and>
   (observes ext ld td m (Suc i) a f \<and> a i = 0 \<and> model_after ext ld td m i = Inr mi \<and>
    0 \<le> best_acc l \<longrightarrow>
      (\<exists>m2 out1. model_after ext ld td m (Suc i) = Inr m2 \<and>
         epoch_loop ext cfg ld td (i # rest) (mi, l, out) =
           (if EARLY_STOP_PATIENCE cfg \<le> early_stop_counter l + 1
            then Inr (m2, l\<lparr>early_stop_counter := early_stop_counter l + 1\<rparr>,
                      out1 @ [Print_early_stop i])
            else epoch_loop ext cfg ld td rest
                   (m2, l\<lparr>early_stop_counter := early_stop_counter l + 1\<rparr>, out1))))"
proof (intro conjI impI)
  let ?init = "\<lparr>best_acc = 0, best_f1 = 0, early_stop_counter = 0\<rparr>"
  {
    assume h: "observes ext ld td m (nat P) a f \<and> (\<forall>i<nat P. a i = 0) \<and>
      EARLY_STOP_PATIENCE cfg = P \<and> 1 \<le> P \<and> P \<le> NUM_EPOCHS cfg"
    let ?final = "?init\<lparr>early_stop_counter := EARLY_STOP_PATIENCE cfg\<rparr>"
    from h have obs: "observes ext ld td m (0 + nat P) a f" by simp
    have ma: "model_after ext ld td m 0 = Inr m" by simp
    have c: "early_stop_counter ?init + int (nat P) = EARLY_STOP_PATIENCE cfg" using h by simp
    have r: "0 < nat P" using h by simp
    have le: "\<forall>i. 0 \<le> i \<and> i < 0 + nat P \<longrightarrow> a i \<le> best_acc ?init" using h by simp
    have n: "0 + nat P \<le> nat (NUM_EPOCHS cfg)" using h by auto
    have last: "Suc (nat P - 1) = nat P" using r by simp
    from h r obtain m' where m': "model_after ext ld td m (nat P) = Inr m'"
      by (auto elim!: observesD[where i = "nat P - 1"] simp: last simp del: model_after.simps)
    have loop: "\<exists>out'. epoch_loop ext cfg ld td [0..<nat (NUM_EPOCHS cfg)] (m, ?init, out) =
                  Inr (m', ?final, out') \<and>
                early_stop_notices out' = early_stop_notices out @ [nat P - 1]" for out
      using stall_breaks[OF obs ma c r le n, of out] m' by auto
    from train_classifier_of_loop[of ext cfg ld td m m' ?final "[nat P - 1]" logs name, OF loop] m'
    show "\<exists>m' out'. train_classifier ext m ld td cfg logs name =
           Inr (m', logs(name @ ''_best_acc'' \<mapsto> 0, name @ ''_best_f1'' \<mapsto> 0), out') \<and>
         model_after ext ld td m (nat P) = Inr m' \<and>
         early_stop_notices out' = [nat P - 1]"
      by simp
  }
  {
    assume N: "NUM_EPOCHS cfg \<le> 0"
    have loop: "\<exists>out'. epoch_loop ext cfg ld td [0..<nat (NUM_EPOCHS cfg)] (m, ?init, out) =
                  Inr (m, ?init, out') \<and>
                early_stop_notices out' = early_stop_notices out @ []" for out
      using N by simp
    from train_classifier_of_loop[of ext cfg ld td m m ?init "[]" logs name, OF loop]
    show "\<exists>out'. train_classifier ext m ld td cfg logs name =
           Inr (m, logs(name @ ''_best_acc'' \<mapsto> 0, name @ ''_best_f1'' \<mapsto> 0), out') \<and>
         early_stop_notices out' = []"
      by simp
  }
  {
    assume h: "observes ext ld td m (Suc i) a f \<and> a i = 0 \<and>
      model_after ext ld td m i = Inr mi \<and> 0 \<le> best_acc l"
    then obtain mi' m2 train_loss train_acc where
      ma: "model_after ext ld td m i = Inr mi'"
      and ea: "epoch_at ext ld td m i = Inr (m2, train_loss, train_acc, a i, f i)"
      and ms: "model_after ext ld td m (Suc i) = Inr m2"
      by (auto elim!: observesD[where i = i])
    from ma h have ma': "model_after ext ld td m i = Inr mi" by simp
    show "\<exists>m2 out1. model_after ext ld td m (Suc i) = Inr m2 \<and>
         epoch_loop ext cfg ld td (i # rest) (mi, l, out) =
           (if EARLY_STOP_PATIENCE cfg \<le> early_stop_counter l + 1
            then Inr (m2, l\<lparr>early_stop_counter := early_stop_counter l + 1\<rparr>,
                      out1 @ [Print_early_stop i])
            else epoch_loop ext cfg ld td rest
                   (m2, l\<lparr>early_stop_counter := early_stop_counter l + 1\<rparr>, out1))"
      using ms h
      by (intro exI[of _ m2]
            exI[of _ "if WANDB cfg then out @ [Wandb_log train_loss train_acc (a i) (f i)] else out"])
         (simp add: epoch_loop_step[OF ma' ea] Let_def del: epoch_loop.simps model_after.simps)
  }
qed

text \<open>
  C10, runs the theorem applies to: the scripted network that gets no example right, with
  patience 2 and five epochs allowed, with no epoch allowed, and its first epoch.
\<close>

theorem zero_accuracy_runs_witness:
  "observes (scripted (threshold_script hits_none)) one_batch ten_examples fresh 2
     (acc_of hits_none) (f1_of hits_none) \<and>
   acc_of hits_none 0 = 0 \<and> acc_of hits_none 1 = 0 \<and>
   (\<exists>m' out'. train_classifier (scripted (threshold_script hits_none)) fresh one_batch ten_examples
       (run_config 5 2) Map.empty ''classifier'' =
       Inr (m', [''classifier_best_acc'' \<mapsto> 0, ''classifier_best_f1'' \<mapsto> 0], out') \<and>
     model_after (scripted (threshold_script hits_none)) one_batch ten_examples fresh 2 = Inr m' \<and>
     early_stop_notices out' = [1]) \<and>
   (\<exists>out'. train_classifier (scripted (threshold_script hits_none)) fresh one_batch ten_examples
       (run_config 0 2) Map.empty ''classifier'' =
       Inr (fresh, [''classifier_best_acc'' \<mapsto> 0, ''classifier_best_f1'' \<mapsto> 0], out') \<and>
     early_stop_notices out' = []) \<and>
   (\<exists>m2 out1. model_after (scripted (threshold_script hits_none)) one_batch ten_examples fresh
         (Suc 0) = Inr m2 \<and>
       epoch_loop (scripted (threshold_script hits_none)) (run_config 5 2) one_batch ten_examples
         [0] (fresh, \<lparr>best_acc = 0, best_f1 = 0, early_stop_counter = 0\<rparr>, []) =
       epoch_loop (scripted (threshold_script hits_none)) (run_config 5 2) one_batch ten_examples
         [] (m2, \<lparr>best_acc = 0, best_f1 = 0, early_stop_counter = 1\<rparr>, out1))"
proof -
  have obs: "observes (scripted (threshold_script hits_none)) one_batch ten_examples fresh (nat 2)
               (acc_of hits_none) (f1_of hits_none)"
    by (rule scripted_observes[OF hits_none_le])
  have v: "\<forall>i<nat 2. acc_of hits_none i = 0" by (simp add: acc_of_def hits_none_def)
  have c: "EARLY_STOP_PATIENCE (run_config 5 2) = 2" "(1::int) \<le> 2" "2 \<le> NUM_EPOCHS (run_config 5 2)"
    "NUM_EPOCHS (run_config 0 2) \<le> 0"
    by (simp_all add: run_config_def)
  have e: "nat 2 = 2" "nat 2 - 1 = 1" by simp_all
  note first = zero_accuracy_runs[of "scripted (threshold_script hits_none)" one_batch
      ten_examples fresh 2 "acc_of hits_none" "f1_of hits_none" "run_config 5 2" Map.empty
      "''classifier''", THEN conjunct1, rule_format, OF conjI[OF obs conjI[OF v conjI[OF c(1) conjI[OF c(2) c(3)]]]],
      unfolded e]
  note second = zero_accuracy_runs[of "scripted (threshold_script hits_none)" one_batch
      ten_examples fresh 2 "acc_of hits_none" "f1_of hits_none" "run_config 0 2" Map.empty
      "''classifier''", THEN conjunct2, THEN conjunct1, rule_format, OF c(4)]
  have v': "acc_of hits_none 0 = 0" "acc_of hits_none 1 = 0"
    by (simp_all add: acc_of_def hits_none_def)
  have obs1: "observes (scripted (threshold_script hits_none)) one_batch ten_examples fresh
                (Suc 0) (acc_of hits_none) (f1_of hits_none)"
    by (rule scripted_observes[OF hits_none_le])
  have ma: "model_after (scripted (threshold_script hits_none)) one_batch ten_examples fresh 0 =
            Inr fresh"
    by simp
  have b: "0 \<le> best_acc \<lparr>best_acc = 0, best_f1 = 0, early_stop_counter = 0\<rparr>" by simp
  note third = zero_accuracy_runs[of "scripted (threshold_script hits_none)" one_batch
      ten_examples fresh 2 "acc_of hits_none" "f1_of hits_none" "run_config 5 2" Map.empty
      "''classifier''" 0 fresh "\<lparr>best_acc = 0, best_f1 = 0, early_stop_counter = 0\<rparr>" "[]" "[]",
      THEN conjunct2, THEN conjunct2, rule_format, OF conjI[OF obs1 conjI[OF v'(1) conjI[OF ma b]]]]
  have third': "\<exists>m2 out1. model_after (scripted (threshold_script hits_none)) one_batch
         ten_examples fresh (Suc 0) = Inr m2 \<and>
       epoch_loop (scripted (threshold_script hits_none)) (run_config 5 2) one_batch ten_examples
         [0] (fresh, \<lparr>best_acc = 0, best_f1 = 0, early_stop_counter = 0\<rparr>, []) =
       epoch_loop (scripted (threshold_script hits_none)) (run_config 5 2) one_batch ten_examples
         [] (m2, \<lparr>best_acc = 0, best_f1 = 0, early_stop_counter = 1\<rparr>, out1)"
    using third by (simp add: c(1) del: epoch_loop.simps model_after.simps)
  show ?thesis
    using first second third' v' scripted_observes[OF hits_none_le, of 2]
    by (simp del: epoch_loop.simps model_after.simps)
qed

text \<open>
  C10 as stated covers a patience of 0, which is not above \<^verbatim>\<open>NUM_EPOCHS\<close> = 1, and
  has the loop stop after exactly 0 epochs. The counter is compared with the patience
  only at the end of an epoch without improvement: one epoch is run, and its notice names
  epoch 0.
\<close>

theorem zero_patience_counterexample:
  "observes (scripted (threshold_script hits_none)) one_batch ten_examples fresh 1
     (acc_of hits_none) (f1_of hits_none) \<and>
   acc_of hits_none 0 = 0 \<and>
   EARLY_STOP_PATIENCE (run_config 1 0) \<le> NUM_EPOCHS (run_config 1 0) \<and>
   train_classifier (scripted (threshold_script hits_none)) fresh one_batch ten_examples
       (run_config 1 0) Map.empty ''classifier'' =
     Inr (after_steps 1,
          [''classifier_best_acc'' \<mapsto> 0, ''classifier_best_f1'' \<mapsto> 0],
          [Print_early_stop 0, Print_best_acc 0])"
proof -
  have run: "train_classifier (scripted (threshold_script hits_none)) fresh one_batch ten_examples
       (run_config 1 0) Map.empty ''classifier'' =
     Inr (after_steps 1,
          [''classifier_best_acc'' \<mapsto> 0, ''classifier_best_f1'' \<mapsto> 0],
          [Print_early_stop 0, Print_best_acc 0])"
    unfolding train_classifier_def
    by (simp add: run_config_def scripted_loop_step[OF hits_none_le] fresh_after_steps upt_rec
        acc_of_def f1_of_def hits_none_def del: epoch_loop.simps(2))
  have v: "acc_of hits_none 0 = 0" by (simp add: acc_of_def hits_none_def)
  have c: "EARLY_STOP_PATIENCE (run_config 1 0) \<le> NUM_EPOCHS (run_config 1 0)"
    by (simp add: run_config_def)
  show ?thesis
    using run v c scripted_observes[OF hits_none_le, of 1] by simp
qed

section \<open>The best values and the logs\<close>

text \<open>
  C8. In every epoch of the loop the best values are replaced exactly when the
  validation accuracy of the epoch is strictly above the best accuracy so far, and then
  the stall counter is set to 0; otherwise the best values stay and the counter goes up
  by one (whether the loop then stops or goes on). Hence, when \<^verbatim>\<open>train_classifier\<close>
  returns after \<open>E\<close> epochs, the accuracy it records is the largest among those of the
  \<open>E\<close> epochs (and the initial 0), and the f1 it records is the f1 of the first epoch that
  reached that accuracy, whatever the f1 of the other epochs.
\<close>

theorem best_values_follow_first_maximum:
  "(run_epoch ext mi (train_loader epoch) test_data =
      Inr (m2, train_loss, train_acc, test_acc, test_f1) \<longrightarrow>
    epoch_loop ext cfg train_loader test_data (epoch # rest) (mi, l, out) =
      (let out1 = (if WANDB cfg
                   then out @ [Wandb_log train_loss train_acc test_acc test_f1]
                   else out)
       in if best_acc l < test_acc
          then epoch_loop ext cfg train_loader test_data rest
                 (m2, \<lparr>best_acc = test_acc, best_f1 = test_f1, early_stop_counter = 0\<rparr>, out1)
          else if EARLY_STOP_PATIENCE cfg \<le> early_stop_counter l + 1
          then Inr (m2, \<lparr>best_acc = best_acc l, best_f1 = best_f1 l,
                         early_stop_counter = early_stop_counter l + 1\<rparr>,
                    out1 @ [Print_early_stop epoch])
          else epoch_loop ext cfg train_loader test_data rest
                 (m2, \<lparr>best_acc = best_acc l, best_f1 = best_f1 l,
                       early_stop_counter = early_stop_counter l + 1\<rparr>, out1))) \<and>
   (train_classifier ext m train_loader test_data cfg logs name = Inr (m', logs', out') \<longrightarrow>
    (\<exists>E a f b g. E \<le> nat (NUM_EPOCHS cfg) \<and>
       observes ext train_loader test_data m E a f \<and>
       model_after ext train_loader test_data m E = Inr m' \<and>
       first_maximum a f E b g \<and>
       logs' = logs(name @ ''_best_acc'' \<mapsto> b, name @ ''_best_f1'' \<mapsto> g)))"
proof (intro conjI impI)
  assume "run_epoch ext mi (train_loader epoch) test_data =
      Inr (m2, train_loss, train_acc, test_acc, test_f1)"
  then show "epoch_loop ext cfg train_loader test_data (epoch # rest) (mi, l, out) =
      (let out1 = (if WANDB cfg
                   then out @ [Wandb_log train_loss train_acc test_acc test_f1]
                   else out)
       in if best_acc l < test_acc
          then epoch_loop ext cfg train_loader test_data rest
                 (m2, \<lparr>best_acc = test_acc, best_f1 = test_f1, early_stop_counter = 0\<rparr>, out1)
          else if EARLY_STOP_PATIENCE cfg \<le> early_stop_counter l + 1
          then Inr (m2, \<lparr>best_acc = best_acc l, best_f1 = best_f1 l,
                         early_stop_counter = early_stop_counter l + 1\<rparr>,
                    out1 @ [Print_early_stop epoch])
          else epoch_loop ext cfg train_loader test_data rest
                 (m2, \<lparr>best_acc = best_acc l, best_f1 = best_f1 l,
                       early_stop_counter = early_stop_counter l + 1\<rparr>, out1))"
    by (cases l) (auto simp: run_epoch_def Let_def split: sum.splits prod.splits)
next
  assume run: "train_classifier ext m train_loader test_data cfg logs name = Inr (m', logs', out')"
  let ?init = "\<lparr>best_acc = 0, best_f1 = 0, early_stop_counter = 0\<rparr>"
  define a where "a i = (case epoch_at ext train_loader test_data m i of
                           Inl e \<Rightarrow> 0 | Inr (m2, trl, tra, acc, f1) \<Rightarrow> acc)" for i
  define f where "f i = (case epoch_at ext train_loader test_data m i of
                           Inl e \<Rightarrow> 0 | Inr (m2, trl, tra, acc, f1) \<Rightarrow> f1)" for i
  have vals: "\<forall>i m2 tl ta acc f1.
      epoch_at ext train_loader test_data m i = Inr (m2, tl, ta, acc, f1) \<longrightarrow>
      a i = acc \<and> f i = f1"
    by (simp add: a_def f_def)
  from run obtain l' out1 where
    loop: "epoch_loop ext cfg train_loader test_data [0..<nat (NUM_EPOCHS cfg)]
       (m, ?init,
        if WANDB cfg
        then [Wandb_init (WANDB_PROJECT cfg) cfg [''train'', DATASET cfg, name]
                (DATASET cfg @ '' '' @ name), Wandb_watch]
        else []) = Inr (m', l', out1)"
    and logs: "logs' = logs(name @ ''_best_acc'' \<mapsto> best_acc l',
                            name @ ''_best_f1'' \<mapsto> best_f1 l')"
    by (rule train_classifier_Inr)
  have ma: "model_after ext train_loader test_data m 0 = Inr m" by simp
  have obs: "observes ext train_loader test_data m 0 a f" by (simp add: observes_def)
  have fm: "first_maximum a f 0 (best_acc ?init) (best_f1 ?init)"
    by (simp add: first_maximum_def)
  from epoch_loop_first_maximum[OF vals ma obs fm _ loop]
  obtain E where "E \<le> nat (NUM_EPOCHS cfg)" "observes ext train_loader test_data m E a f"
    "model_after ext train_loader test_data m E = Inr m'"
    "first_maximum a f E (best_acc l') (best_f1 l')"
    by auto
  with logs show "\<exists>E a f b g. E \<le> nat (NUM_EPOCHS cfg) \<and>
       observes ext train_loader test_data m E a f \<and>
       model_after ext train_loader test_data m E = Inr m' \<and>
       first_maximum a f E b g \<and>
       logs' = logs(name @ ''_best_acc'' \<mapsto> b, name @ ''_best_f1'' \<mapsto> g)"
    by blast
qed

text \<open>
  C8, a run where the f1 recorded is not the largest one seen: on \<open>four_examples\<close> both
  epochs have the accuracy 3/4; the first has the f1 9/14 and the second 23/30. The second
  is no improvement, and the logs keep 9/14.
\<close>

theorem best_values_follow_first_maximum_witness:
  "train_classifier (scripted (threshold_script hits_42)) fresh one_batch four_examples
     (run_config 2 3) Map.empty ''classifier'' =
   Inr (after_steps 2,
        [''classifier_best_acc'' \<mapsto> 3 / 4, ''classifier_best_f1'' \<mapsto> 9 / 14],
        [Print_best_acc (3 / 4)]) \<and>
   epoch_at (scripted (threshold_script hits_42)) one_batch four_examples fresh 0 =
   Inr (after_steps 1, Finite ((bce_with_logits 1 1 + bce_with_logits 0 0) / 2), 1, 3 / 4, 9 / 14) \<and>
   epoch_at (scripted (threshold_script hits_42)) one_batch four_examples fresh 1 =
   Inr (after_steps 2, Finite ((bce_with_logits 1 1 + bce_with_logits 0 0) / 2), 1, 3 / 4, 23 / 30) \<and>
   (9 / 14 :: real) < 23 / 30 \<and>
   (\<exists>E a f b g. E \<le> nat (NUM_EPOCHS (run_config 2 3)) \<and>
       observes (scripted (threshold_script hits_42)) one_batch four_examples fresh E a f \<and>
       model_after (scripted (threshold_script hits_42)) one_batch four_examples fresh E =
         Inr (after_steps 2) \<and>
       first_maximum a f E b g \<and>
       [''classifier_best_acc'' \<mapsto> 3 / 4, ''classifier_best_f1'' \<mapsto> 9 / 14] =
         Map.empty(''classifier'' @ ''_best_acc'' \<mapsto> b, ''classifier'' @ ''_best_f1'' \<mapsto> g))"
  using best_values_follow_first_maximum[THEN conjunct2, rule_format, OF four_examples_run]
    four_examples_run four_examples_epoch_0 four_examples_epoch_1
  by (simp del: model_after.simps)

text \<open>
  C7. A run of \<^verbatim>\<open>train_classifier\<close> that returns has written the two entries
  \<open>name @ ''_best_acc''\<close> and \<open>name @ ''_best_f1''\<close> of the logs, added or overwritten,
  and no other: every other key keeps what it held, and the keys of the logs are the old
  ones and these two. The two keys differ, the keys of two runs with different names are
  disjoint, and a later run under another name leaves the two entries of this run as
  they are.
\<close>

theorem logs_frame:
  assumes run: "train_classifier ext m ld td cfg logs name = Inr (m', logs', out')"
  shows "(\<exists>b g. logs' = logs(name @ ''_best_acc'' \<mapsto> b, name @ ''_best_f1'' \<mapsto> g)) \<and>
         (\<forall>key. key \<noteq> name @ ''_best_acc'' \<and> key \<noteq> name @ ''_best_f1'' \<longrightarrow>
                logs' key = logs key) \<and>
         dom logs' = dom logs \<union> {name @ ''_best_acc'', name @ ''_best_f1''} \<and>
         name @ ''_best_acc'' \<noteq> name @ ''_best_f1'' \<and>
         (\<forall>name2. name2 \<noteq> name \<longrightarrow>
            {name @ ''_best_acc'', name @ ''_best_f1''} \<inter>
            {name2 @ ''_best_acc'', name2 @ ''_best_f1''} = {}) \<and>
         (name2 \<noteq> name \<and>
          train_classifier ext2 m2 ld2 td2 cfg2 logs' name2 = Inr (m'', logs'', out'') \<longrightarrow>
            logs'' (name @ ''_best_acc'') = logs' (name @ ''_best_acc'') \<and>
            logs'' (name @ ''_best_f1'') = logs' (name @ ''_best_f1''))"
proof -
  from train_classifier_logs[OF run] obtain b g where
    logs': "logs' = logs(name @ ''_best_acc'' \<mapsto> b, name @ ''_best_f1'' \<mapsto> g)"
    by blast
  have disj: "{name @ ''_best_acc'', name @ ''_best_f1''} \<inter>
              {n2 @ ''_best_acc'', n2 @ ''_best_f1''} = {}" if "n2 \<noteq> name" for n2
    using that best_keys_differ[of name n2] best_keys_differ[of n2 name]
    by (auto simp: best_keys_inject)
  have second: "logs'' (name @ ''_best_acc'') = logs' (name @ ''_best_acc'') \<and>
                logs'' (name @ ''_best_f1'') = logs' (name @ ''_best_f1'')"
    if "name2 \<noteq> name"
      and "train_classifier ext2 m2 ld2 td2 cfg2 logs' name2 = Inr (m'', logs'', out'')"
  proof -
    from train_classifier_logs[OF that(2)] obtain b2 g2 where
      "logs'' = logs'(name2 @ ''_best_acc'' \<mapsto> b2, name2 @ ''_best_f1'' \<mapsto> g2)"
      by blast
    then show ?thesis
      using that(1) best_keys_differ[of name name2] best_keys_differ[of name2 name]
      by (auto simp: best_keys_inject)
  qed
  show ?thesis
    using logs' disj second best_keys_differ[of name name]
    by (intro conjI) (blast, simp, auto)
qed

text \<open>
  C7, two runs one after the other on the same logs, under the names \<open>fcn_a\<close> and
  \<open>fcn_b\<close>, with the metric sink and the saving switched on; the logs start with one
  entry of their own.
\<close>

theorem logs_frame_witness:
  "(\<exists>out'. train_classifier (scripted (threshold_script hits_42)) fresh one_batch four_examples
       (tracked_config 2 3) [''lr'' \<mapsto> 1 / 1000] ''fcn_a'' =
     Inr (after_steps 2,
          [''lr'' \<mapsto> 1 / 1000, ''fcn_a_best_acc'' \<mapsto> 3 / 4, ''fcn_a_best_f1'' \<mapsto> 9 / 14],
          out')) \<and>
   (\<exists>out'. train_classifier (scripted (threshold_script hits_42)) fresh one_batch four_examples
       (tracked_config 2 3)
       [''lr'' \<mapsto> 1 / 1000, ''fcn_a_best_acc'' \<mapsto> 3 / 4, ''fcn_a_best_f1'' \<mapsto> 9 / 14]
       ''fcn_b'' =
     Inr (after_steps 2,
          [''lr'' \<mapsto> 1 / 1000, ''fcn_a_best_acc'' \<mapsto> 3 / 4, ''fcn_a_best_f1'' \<mapsto> 9 / 14,
           ''fcn_b_best_acc'' \<mapsto> 3 / 4, ''fcn_b_best_f1'' \<mapsto> 9 / 14],
          out')) \<and>
   dom [''lr'' \<mapsto> 1 / 1000 :: real, ''fcn_a_best_acc'' \<mapsto> 3 / 4, ''fcn_a_best_f1'' \<mapsto> 9 / 14] =
     dom [''lr'' \<mapsto> 1 / 1000 :: real] \<union> {''fcn_a'' @ ''_best_acc'', ''fcn_a'' @ ''_best_f1''} \<and>
   {''fcn_a'' @ ''_best_acc'', ''fcn_a'' @ ''_best_f1''} \<inter>
     {''fcn_b'' @ ''_best_acc'', ''fcn_b'' @ ''_best_f1''} = {}"
proof -
  let ?S = "scripted (threshold_script hits_42)"
  let ?logs0 = "[''lr'' \<mapsto> 1 / 1000 :: real]"
  let ?logs1 = "?logs0(''fcn_a'' @ ''_best_acc'' \<mapsto> 3 / 4, ''fcn_a'' @ ''_best_f1'' \<mapsto> 9 / 14)"
  note run_a = four_examples_tracked_run[of ?logs0 "''fcn_a''"]
  note run_b = four_examples_tracked_run[of ?logs1 "''fcn_b''"]
  have ne: "''fcn_b'' \<noteq> ''fcn_a''" by simp
  note frame = logs_frame[OF run_a, of "''fcn_b''" ?S fresh one_batch four_examples
      "tracked_config 2 3"]
  note d = frame[THEN conjunct2, THEN conjunct2, THEN conjunct1]
  note i = frame[THEN conjunct2, THEN conjunct2, THEN conjunct2, THEN conjunct2, THEN conjunct1,
      rule_format, OF ne]
  have a: "\<exists>out'. train_classifier ?S fresh one_batch four_examples
       (tracked_config 2 3) [''lr'' \<mapsto> 1 / 1000] ''fcn_a'' =
     Inr (after_steps 2,
          [''lr'' \<mapsto> 1 / 1000, ''fcn_a_best_acc'' \<mapsto> 3 / 4, ''fcn_a_best_f1'' \<mapsto> 9 / 14],
          out')"
    unfolding run_a by simp
  have b: "\<exists>out'. train_classifier ?S fresh one_batch four_examples
       (tracked_config 2 3)
       [''lr'' \<mapsto> 1 / 1000, ''fcn_a_best_acc'' \<mapsto> 3 / 4, ''fcn_a_best_f1'' \<mapsto> 9 / 14]
       ''fcn_b'' =
     Inr (after_steps 2,
          [''lr'' \<mapsto> 1 / 1000, ''fcn_a_best_acc'' \<mapsto> 3 / 4, ''fcn_a_best_f1'' \<mapsto> 9 / 14,
           ''fcn_b_best_acc'' \<mapsto> 3 / 4, ''fcn_b_best_f1'' \<mapsto> 9 / 14],
          out')"
    using run_b by simp
  have c: "dom [''lr'' \<mapsto> 1 / 1000 :: real, ''fcn_a_best_acc'' \<mapsto> 3 / 4,
                ''fcn_a_best_f1'' \<mapsto> 9 / 14] =
     dom [''lr'' \<mapsto> 1 / 1000 :: real] \<union> {''fcn_a'' @ ''_best_acc'', ''fcn_a'' @ ''_best_f1''}"
    using d by simp
  from a b c i show ?thesis by (intro conjI)
qed
section \<open>\<^verbatim>\<open>validate\<close> twice\<close>

text \<open>
  C5. When \<^verbatim>\<open>validate\<close> returns an accuracy and an f1, a second call on the model it
  leaves behind and the same held-out pair returns the same accuracy and the same f1 and
  leaves the same model; the parameters and the optimizer state are those from before the
  first call (the mode flag is the one thing the call sets: the model is in evaluation
  mode afterwards). When the first call raises, so does the second, with the same error.
\<close>

theorem validate_repeatable:
  "(validate ext m test_data = Inr (m1, accuracy, f1) \<longrightarrow>
      validate ext m1 test_data = Inr (m1, accuracy, f1) \<and>
      params m1 = params m \<and> optim m1 = optim m \<and> \<not> training m1) \<and>
   (validate ext m test_data = Inl e \<longrightarrow>
      validate ext (m\<lparr>training := False\<rparr>) test_data = Inl e)"
  by (auto simp: validate_def forward_def Let_def split: sum.splits prod.splits if_splits)

text \<open>
  C5, two calls on the scripted network after one step, the first of them made in
  training mode, and two calls on a held-out pair without examples, which raise.
\<close>

theorem validate_repeatable_witness:
  "validate (scripted (threshold_script hits_42)) \<lparr>params = 1, optim = (), training = True\<rparr>
     four_examples = Inr (after_steps 1, 3 / 4, 9 / 14) \<and>
   validate (scripted (threshold_script hits_42)) (after_steps 1) four_examples =
     Inr (after_steps 1, 3 / 4, 9 / 14) \<and>
   params (after_steps 1) = params \<lparr>params = 1, optim = (), training = True\<rparr> \<and>
   validate (scripted (threshold_script hits_42)) \<lparr>params = 1, optim = (), training = True\<rparr>
     ([], []) = Inl ZeroDivisionError \<and>
   validate (scripted (threshold_script hits_42)) \<lparr>params = 1, optim = (), training = False\<rparr>
     ([], []) = Inl ZeroDivisionError"
  using validate_repeatable[of "scripted (threshold_script hits_42)"
      "\<lparr>params = 1, optim = (), training = True\<rparr>" four_examples "after_steps 1" "3 / 4" "9 / 14",
      THEN conjunct1, rule_format, OF four_examples_validate]
    validate_repeatable[of "scripted (threshold_script hits_42)"
      "\<lparr>params = 1, optim = (), training = True\<rparr>" "([], [])" _ _ _ ZeroDivisionError,
      THEN conjunct2, rule_format, OF no_examples_validate]
    four_examples_validate[of True] no_examples_validate[of True]
  by simp
section \<open>The forward pass accepts every length\<close>

text \<open>A network built for no class at all raises in its last layer, whatever the input.\<close>

lemma forward_shape_no_class:
  assumes "1 \<le> b" and "1 \<le> L"
  shows "forward_shape train (Classifier_FCN 0) (b, 1, L) = Inl RuntimeError"
  using assms
  by (simp add: forward_shape_def Classifier_FCN_def FCNBlock_def FCNBlock_forward_shape_def
      conv1d_shape_def batchnorm1d_shape_def relu_shape_def global_avg_pool_shape_def)

text \<open>
  C4. For a network with at least one class, every batch size \<open>b\<close> of at least 1 and
  every length \<open>L\<close> of at least 1, in training mode and in evaluation mode, the forward
  pass of \<^verbatim>\<open>Classifier_FCN\<close> on an input of shape (b, 1, L) raises nothing and returns
  logits of shape (b, nb_classes): the length does not occur in the result.
\<close>

theorem forward_shape_any_length:
  assumes "1 \<le> b" and "1 \<le> L" and "1 \<le> nb_classes"
  shows "forward_shape train (Classifier_FCN nb_classes) (b, 1, L) = Inr [b, nb_classes]"
  using assms
  by (simp add: forward_shape_def Classifier_FCN_def FCNBlock_def FCNBlock_forward_shape_def
      conv1d_shape_def batchnorm1d_shape_def relu_shape_def global_avg_pool_shape_def
      squeeze_last_def)

text \<open>
  C4, for one series of length 1 and two classes, and for batches of 32 series of length
  96 and 1000.
\<close>

theorem forward_shape_any_length_witness:
  "forward_shape True (Classifier_FCN 2) (1, 1, 1) = Inr [1, 2] \<and>
   forward_shape False (Classifier_FCN 2) (32, 1, 96) = Inr [32, 2] \<and>
   forward_shape True (Classifier_FCN 2) (32, 1, 1000) = Inr [32, 2]"
  using forward_shape_any_length[of 1 1 2 True] forward_shape_any_length[of 32 96 2 False]
    forward_shape_any_length[of 32 1000 2 True]
  by simp

end
